theory Spec2Isabelle
  imports Complex_Main "HOL-Library.Sublist"
begin

section \<open>Tables, cells and the library boundary\<close>

text \<open>
  The program of \<^verbatim>\<open>stock_forecasting.py\<close> works on pandas tables. A table is modelled
  column by column: the row index (its name and its values) and the columns in their
  order, each a label with its values. Labels may repeat, so the columns are an
  association list. A label is a string, or a tuple of strings under a multi-level
  header; the row index has one level, as the index of the table of \<^verbatim>\<open>yf.download\<close> has.

  A cell is a number, a timestamp (nanoseconds since the epoch, as pandas stores it), a
  text that has not been converted, or the missing value (NaN, NaT and None alike,
  which \<^verbatim>\<open>dropna\<close> treats the same way).
\<close>

datatype exn =
    KeyError string
  | ValueError string
  | TypeError string
  | ProviderError string

datatype cell = NaN | Num real | Stamp int | Text string

datatype label = Name string | Tuple "string list"

record dataframe =
  multi :: bool
  index_name :: "string option"
  index :: "cell list"
  cols :: "(label \<times> cell list) list"

text \<open>
  What the program takes from its libraries without computing it itself: the download
  of \<^verbatim>\<open>yfinance\<close> (which may raise), the conversion of one value to a timestamp and to a
  number (\<open>None\<close> when pandas cannot convert it), the numeric fit of \<^verbatim>\<open>Prophet\<close> (which
  may raise; a fitted model gives the point estimate, the lower and the upper bound at a
  timestamp), and whether this pandas refuses a negative number of periods in
  \<^verbatim>\<open>date_range\<close> or answers with an empty range.
\<close>

record env =
  yf_download :: "string \<Rightarrow> exn + dataframe"
  parse_date :: "cell \<Rightarrow> int option"
  parse_number :: "cell \<Rightarrow> real option"
  prophet_estimate :: "(int \<times> real) list \<Rightarrow> exn + (int \<Rightarrow> real \<times> real \<times> real)"
  negative_periods_raise :: bool

definition andThen :: "exn + 'a \<Rightarrow> ('a \<Rightarrow> exn + 'b) \<Rightarrow> exn + 'b" where
  "andThen m f = (case m of Inl e \<Rightarrow> Inl e | Inr x \<Rightarrow> f x)"

subsection \<open>Python string operations used on labels\<close>

text \<open>
  A string is its sequence of bytes in UTF-8. \<^verbatim>\<open>str.strip()\<close> removes from both ends the
  characters Python takes for white space: U+0009 to U+000D, U+001C to U+0020, U+0085,
  U+00A0, U+1680, U+2000 to U+200A, U+2028, U+2029, U+202F, U+205F and U+3000.
\<close>

definition py_whitespace :: "string list" where
  "py_whitespace =
     map (\<lambda>c. [c]) [CHR 0x09, CHR 0x0A, CHR 0x0B, CHR 0x0C, CHR 0x0D,
                     CHR 0x1C, CHR 0x1D, CHR 0x1E, CHR 0x1F, CHR 0x20]
     @ [[CHR 0xC2, CHR 0x85], [CHR 0xC2, CHR 0xA0], [CHR 0xE1, CHR 0x9A, CHR 0x80]]
     @ map (\<lambda>c. [CHR 0xE2, CHR 0x80, c])
         [CHR 0x80, CHR 0x81, CHR 0x82, CHR 0x83, CHR 0x84, CHR 0x85, CHR 0x86, CHR 0x87,
          CHR 0x88, CHR 0x89, CHR 0x8A, CHR 0xA8, CHR 0xA9, CHR 0xAF]
     @ [[CHR 0xE2, CHR 0x81, CHR 0x9F], [CHR 0xE3, CHR 0x80, CHR 0x80]]"

fun lstrip :: "string list \<Rightarrow> string \<Rightarrow> string" where
  "lstrip ws [] = []"
| "lstrip ws (c # s) =
     (case filter (\<lambda>w. prefix w (c # s)) (filter (\<lambda>w. w \<noteq> []) ws) of
        [] \<Rightarrow> c # s
      | w # rest \<Rightarrow> lstrip ws (drop (length w - 1) s))"

definition strip :: "string \<Rightarrow> string" where
  "strip s = rev (lstrip (map rev py_whitespace) (rev (lstrip py_whitespace s)))"

fun join :: "string \<Rightarrow> string list \<Rightarrow> string" where
  "join sep [] = []"
| "join sep [x] = x"
| "join sep (x # y # ys) = x @ sep @ join sep (y # ys)"

fun contains :: "string \<Rightarrow> string \<Rightarrow> bool" where
  "contains p [] = (p = [])"
| "contains p (c # s) = (prefix p (c # s) \<or> contains p s)"

text \<open>\<^verbatim>\<open>p in c\<close>: a substring test on a string, membership on a tuple.\<close>

fun py_in :: "string \<Rightarrow> label \<Rightarrow> bool" where
  "py_in p (Name s) = contains p s"
| "py_in p (Tuple parts) = (p \<in> set parts)"

subsection \<open>pandas operations used by the program\<close>

definition labels :: "dataframe \<Rightarrow> label list" where
  "labels df = map fst (cols df)"

text \<open>\<^verbatim>\<open>df.empty\<close>: one of the two axes has length 0.\<close>

definition empty_frame :: "dataframe \<Rightarrow> bool" where
  "empty_frame df = (index df = [] \<or> cols df = [])"

definition range_index :: "nat \<Rightarrow> cell list" where
  "range_index n = map (\<lambda>i. Num (real i)) [0..<n]"

text \<open>
  \<^verbatim>\<open>df.reset_index(inplace=True)\<close>: the index becomes the first column, under its name,
  or under \<^verbatim>\<open>index\<close> (\<^verbatim>\<open>level_0\<close> when \<^verbatim>\<open>index\<close> is taken) when it has none; a name that
  is already a column is refused. The new index counts the rows.
\<close>

definition reset_index :: "dataframe \<Rightarrow> exn + dataframe" where
  "reset_index df =
     (let name = (case index_name df of
                    Some n \<Rightarrow> n
                  | None \<Rightarrow> if Name ''index'' \<in> set (labels df) then ''level_0'' else ''index'')
      in if Name name \<in> set (labels df) then Inl (ValueError ''cannot insert, already exists'')
         else Inr (df\<lparr>index_name := None,
                      index := range_index (length (index df)),
                      cols := (Name name, index df) # cols df\<rparr>))"

definition rename :: "label \<Rightarrow> label \<Rightarrow> dataframe \<Rightarrow> dataframe" where
  "rename old new df = df\<lparr>cols := map (\<lambda>(l, c). (if l = old then new else l, c)) (cols df)\<rparr>"

text \<open>
  \<^verbatim>\<open>df[l]\<close> where a one-dimensional series is needed: a label no column has raises
  KeyError; a label several columns share selects a table, which \<^verbatim>\<open>pd.to_datetime\<close>
  refuses with ValueError and \<^verbatim>\<open>pd.to_numeric\<close> with TypeError.
\<close>

definition series :: "label \<Rightarrow> dataframe \<Rightarrow> exn + cell list" where
  "series l df =
     (case filter (\<lambda>(k, c). k = l) (cols df) of
        [] \<Rightarrow> Inl (KeyError ''no such column'')
      | [(k, c)] \<Rightarrow> Inr c
      | _ \<Rightarrow> Inl (TypeError ''a table where a series is needed''))"

text \<open>\<^verbatim>\<open>df[l] = v\<close>: the values of the column are replaced; a new label is appended.\<close>

definition set_column :: "label \<Rightarrow> cell list \<Rightarrow> dataframe \<Rightarrow> dataframe" where
  "set_column l v df =
     (if l \<in> set (labels df)
      then df\<lparr>cols := map (\<lambda>(k, c). (k, if k = l then v else c)) (cols df)\<rparr>
      else df\<lparr>cols := cols df @ [(l, v)]\<rparr>)"

text \<open>
  \<^verbatim>\<open>pd.to_datetime(s, errors="coerce")\<close> and \<^verbatim>\<open>pd.to_numeric(s, errors="coerce")\<close>: a
  value that cannot be converted becomes the missing value; nothing is raised.
\<close>

definition to_datetime :: "env \<Rightarrow> cell list \<Rightarrow> cell list" where
  "to_datetime E s =
     map (\<lambda>c. case c of
                NaN \<Rightarrow> NaN
              | Stamp t \<Rightarrow> Stamp t
              | _ \<Rightarrow> (case parse_date E c of None \<Rightarrow> NaN | Some t \<Rightarrow> Stamp t)) s"

definition to_numeric :: "env \<Rightarrow> cell list \<Rightarrow> cell list" where
  "to_numeric E s =
     map (\<lambda>c. case c of
                NaN \<Rightarrow> NaN
              | Num v \<Rightarrow> Num v
              | _ \<Rightarrow> (case parse_number E c of None \<Rightarrow> NaN | Some v \<Rightarrow> Num v)) s"

text \<open>
  \<^verbatim>\<open>dropna\<close>: a row stays when none of the inspected columns is missing there. The rows
  are not reordered and the index keeps the labels of the rows that stay.
\<close>

definition notna :: "cell list \<Rightarrow> bool list" where
  "notna s = map (\<lambda>c. c \<noteq> NaN) s"

definition row_mask :: "cell list list \<Rightarrow> nat \<Rightarrow> bool list" where
  "row_mask ss n = foldr (\<lambda>s m. map2 (\<and>) (notna s) m) ss (replicate n True)"

definition select_rows :: "bool list \<Rightarrow> 'a list \<Rightarrow> 'a list" where
  "select_rows m xs = map snd (filter fst (zip m xs))"

definition keep_rows :: "bool list \<Rightarrow> dataframe \<Rightarrow> dataframe" where
  "keep_rows m df = df\<lparr>index := select_rows m (index df),
                        cols := map (\<lambda>(l, c). (l, select_rows m c)) (cols df)\<rparr>"

definition dropna_subset :: "label list \<Rightarrow> dataframe \<Rightarrow> exn + dataframe" where
  "dropna_subset keys df =
     (if \<exists>l \<in> set keys. l \<notin> set (labels df) then Inl (KeyError ''subset'')
      else Inr (keep_rows
                  (row_mask (map snd (filter (\<lambda>(l, c). l \<in> set keys) (cols df)))
                            (length (index df))) df))"

definition dropna_all :: "dataframe \<Rightarrow> dataframe" where
  "dropna_all df = keep_rows (row_mask (map snd (cols df)) (length (index df))) df"

section \<open>Fetching and cleaning: \<^verbatim>\<open>get_stock_data\<close>\<close>

text \<open>Lines 27 to 31: a multi-level header is flattened, each tuple joined by an underscore.\<close>

fun flat_label :: "label \<Rightarrow> label" where
  "flat_label (Tuple parts) = Name (strip (join ''_'' parts))"
| "flat_label (Name s) = Name s"

definition flatten_columns :: "dataframe \<Rightarrow> dataframe" where
  "flatten_columns df =
     (if multi df
      then df\<lparr>multi := False, cols := map (\<lambda>(l, c). (flat_label l, c)) (cols df)\<rparr>
      else df)"

text \<open>Lines 36 to 40: the date column is \<^verbatim>\<open>Date\<close>, else \<^verbatim>\<open>Datetime\<close> renamed, else the index.\<close>

definition resolve_date :: "dataframe \<Rightarrow> dataframe" where
  "resolve_date df =
     (if Name ''Date'' \<notin> set (labels df)
      then (if Name ''Datetime'' \<in> set (labels df)
            then rename (Name ''Datetime'') (Name ''Date'') df
            else set_column (Name ''Date'') (index df) df)
      else df)"

text \<open>Line 43.\<close>

definition coerce_date :: "env \<Rightarrow> dataframe \<Rightarrow> exn + dataframe" where
  "coerce_date E df =
     andThen (series (Name ''Date'') df)
       (\<lambda>d. Inr (set_column (Name ''Date'') (to_datetime E d) df))"

text \<open>Lines 44 to 48: without a \<^verbatim>\<open>Close\<close> column, the first label containing it is renamed.\<close>

definition resolve_close :: "dataframe \<Rightarrow> dataframe" where
  "resolve_close df =
     (if Name ''Close'' \<notin> set (labels df)
      then (case filter (py_in ''Close'') (labels df) of
              [] \<Rightarrow> df
            | c # rest \<Rightarrow> rename c (Name ''Close'') df)
      else df)"

text \<open>Line 50.\<close>

definition coerce_close :: "env \<Rightarrow> dataframe \<Rightarrow> exn + dataframe" where
  "coerce_close E df =
     andThen (series (Name ''Close'') df)
       (\<lambda>c. Inr (set_column (Name ''Close'') (to_numeric E c) df))"

text \<open>Lines 27 to 50 in their order: the table as it stands before rows are dropped.\<close>

definition clean_columns :: "env \<Rightarrow> dataframe \<Rightarrow> exn + dataframe" where
  "clean_columns E df =
     andThen (reset_index (flatten_columns df))
       (\<lambda>df1. andThen (coerce_date E (resolve_date df1))
         (\<lambda>df2. coerce_close E (resolve_close df2)))"

text \<open>
  The body of the \<^verbatim>\<open>try\<close> block, lines 22 to 53. \<open>Inl\<close> is an exception raised inside it,
  \<open>Inr None\<close> the early \<^verbatim>\<open>return None\<close> of line 24.
\<close>

definition get_stock_data_body :: "env \<Rightarrow> string \<Rightarrow> exn + dataframe option" where
  "get_stock_data_body E ticker =
     andThen (yf_download E ticker)
       (\<lambda>df. if empty_frame df then Inr None
             else andThen (clean_columns E df)
                    (\<lambda>df1. andThen (dropna_subset [Name ''Date'', Name ''Close''] df1)
                      (\<lambda>df2. Inr (Some df2))))"

text \<open>Lines 55 to 57: every exception of the body is caught and \<^verbatim>\<open>None\<close> is returned.\<close>

definition get_stock_data :: "env \<Rightarrow> string \<Rightarrow> dataframe option" where
  "get_stock_data E ticker =
     (case get_stock_data_body E ticker of Inl e \<Rightarrow> None | Inr r \<Rightarrow> r)"

section \<open>Forecasting: \<^verbatim>\<open>forecast_stock\<close>\<close>

text \<open>\<^verbatim>\<open>df[[l1, l2]]\<close>: the columns with these labels, in the order asked for.\<close>

definition select_columns :: "label list \<Rightarrow> dataframe \<Rightarrow> exn + dataframe" where
  "select_columns keys df =
     (if \<exists>l \<in> set keys. l \<notin> set (labels df) then Inl (KeyError ''not in index'')
      else Inr (df\<lparr>cols := concat (map (\<lambda>l. filter (\<lambda>(k, c). k = l) (cols df)) keys)\<rparr>))"

definition stamps :: "cell list \<Rightarrow> int list" where
  "stamps s = concat (map (\<lambda>c. case c of Stamp t \<Rightarrow> [t] | _ \<Rightarrow> []) s)"

text \<open>The rows Prophet fits on: those with a timestamp and a value.\<close>

definition observations :: "cell list \<Rightarrow> cell list \<Rightarrow> (int \<times> real) list" where
  "observations ds ys =
     concat (map (\<lambda>(d, v). case d of
                              Stamp t \<Rightarrow> (case v of Num r \<Rightarrow> [(t, r)] | _ \<Rightarrow> [])
                            | _ \<Rightarrow> []) (zip ds ys))"

text \<open>
  The Prophet library, as far as its answer has a shape the program relies on. After
  \<^verbatim>\<open>fit\<close> the model holds the distinct timestamps of the history in ascending order;
  fewer than two rows with a value are refused. The numbers come from the fit of the
  library, which the program does not compute.
\<close>

record prophet =
  history_dates :: "int list"
  estimator :: "int \<Rightarrow> real \<times> real \<times> real"

definition prophet_fit :: "env \<Rightarrow> dataframe \<Rightarrow> exn + prophet" where
  "prophet_fit E model_df =
     andThen (series (Name ''ds'') model_df)
       (\<lambda>ds. andThen (series (Name ''y'') model_df)
         (\<lambda>ys. let history = observations ds ys
               in if length history < 2
                  then Inl (ValueError ''Dataframe has less than 2 non-NaN rows.'')
                  else andThen (prophet_estimate E history)
                         (\<lambda>est. Inr \<lparr>history_dates = sort (remdups (stamps ds)),
                                     estimator = est\<rparr>)))"

definition day_ns :: int where
  "day_ns = 86400000000000"

text \<open>
  \<^verbatim>\<open>pd.date_range(start, periods=n, freq="D")\<close>: \<open>n\<close> timestamps one calendar day
  apart, the first being \<open>start\<close>. Timestamps are nanoseconds since 1 January 1970,
  here integers without a bound: pandas holds them in 64 bits and refuses a range that
  passes 11 April 2262, a date no history of prices reaches and the model leaves out.
\<close>

definition date_range :: "env \<Rightarrow> int \<Rightarrow> int \<Rightarrow> exn + int list" where
  "date_range E start n =
     (if n < 0
      then (if negative_periods_raise E
            then Inl (ValueError ''Number of periods must be non-negative'')
            else Inr [])
      else Inr (map (\<lambda>k. start + int k * day_ns) [0..<nat n]))"

text \<open>\<^verbatim>\<open>xs[:n]\<close>: a negative \<open>n\<close> counts from the end.\<close>

definition py_prefix :: "int \<Rightarrow> 'a list \<Rightarrow> 'a list" where
  "py_prefix n xs = (if 0 \<le> n then take (nat n) xs else take (length xs - nat (- n)) xs)"

fun maximum :: "int list \<Rightarrow> exn + int" where
  "maximum [] = Inl (ValueError ''no history'')"
| "maximum (h # hs) = Inr (fold max hs h)"

text \<open>
  \<^verbatim>\<open>model.make_future_dataframe(periods)\<close> with the defaults of the library, which the
  program leaves as they are (\<^verbatim>\<open>freq="D"\<close>, \<^verbatim>\<open>include_history=True\<close>): the dates of the
  history, then the days after the last of them.
\<close>

definition make_future_dataframe :: "env \<Rightarrow> prophet \<Rightarrow> int \<Rightarrow> exn + int list" where
  "make_future_dataframe E m periods =
     andThen (maximum (history_dates m))
       (\<lambda>last_date. andThen (date_range E last_date (periods + 1))
         (\<lambda>dates. Inr (history_dates m
                        @ py_prefix periods (filter (\<lambda>d. last_date < d) dates))))"

text \<open>
  \<^verbatim>\<open>model.predict(future)\<close>: one row for each row of \<^verbatim>\<open>future\<close>, with its timestamp, the
  lower and the upper bound and the point estimate. The table of the library has
  further columns (trend and seasonal components), which the program never reads.
\<close>

definition predict :: "prophet \<Rightarrow> int list \<Rightarrow> exn + dataframe" where
  "predict m future =
     (if future = [] then Inl (ValueError ''Dataframe has no rows.'')
      else Inr \<lparr>multi = False, index_name = None,
                index = range_index (length future),
                cols = [(Name ''ds'', map Stamp future),
                        (Name ''yhat_lower'', map (\<lambda>t. Num (fst (snd (estimator m t)))) future),
                        (Name ''yhat_upper'', map (\<lambda>t. Num (snd (snd (estimator m t)))) future),
                        (Name ''yhat'', map (\<lambda>t. Num (fst (estimator m t))) future)]\<rparr>)"

text \<open>The body of the \<^verbatim>\<open>try\<close> block, lines 64 to 76.\<close>

definition forecast_stock_body :: "env \<Rightarrow> dataframe \<Rightarrow> int \<Rightarrow> exn + dataframe" where
  "forecast_stock_body E df periods =
     andThen (select_columns [Name ''Date'', Name ''Close''] df)
       (\<lambda>sel. let model_df = dropna_all (rename (Name ''Close'') (Name ''y'')
                                           (rename (Name ''Date'') (Name ''ds'') sel))
         in andThen (series (Name ''ds'') model_df)
           (\<lambda>ds. let model_df1 = set_column (Name ''ds'') (to_datetime E ds) model_df
             in andThen (series (Name ''y'') model_df1)
               (\<lambda>ys. let model_df2 = set_column (Name ''y'') (to_numeric E ys) model_df1
                 in andThen (dropna_subset [Name ''ds'', Name ''y''] model_df2)
                   (\<lambda>model_df3. andThen (prophet_fit E model_df3)
                     (\<lambda>model. andThen (make_future_dataframe E model periods)
                       (\<lambda>future. predict model future))))))"

text \<open>Lines 78 to 80: every exception of the body is caught and \<^verbatim>\<open>None\<close> is returned.\<close>

definition forecast_stock :: "env \<Rightarrow> dataframe \<Rightarrow> int \<Rightarrow> dataframe option" where
  "forecast_stock E df periods =
     (case forecast_stock_body E df periods of Inl e \<Rightarrow> None | Inr forecast \<Rightarrow> Some forecast)"

section \<open>The callback: \<^verbatim>\<open>update_tab\<close>\<close>

definition stock_options :: "(string \<times> string) list" where
  "stock_options =
     [(''Apple (AAPL)'', ''AAPL''),
      (''Tesla (TSLA)'', ''TSLA''),
      (''Microsoft (MSFT)'', ''MSFT''),
      (''Google (GOOG)'', ''GOOG''),
      (''Reliance (RELIANCE.NS)'', ''RELIANCE.NS''),
      (''TCS (TCS.NS)'', ''TCS.NS''),
      (''Gold ETF India (GOLDBEES.NS)'', ''GOLDBEES.NS''),
      (''Gold ETF India (NIPPGOLD.NS)'', ''NIPPGOLD.NS''),
      (''Gold ETF US (GLD)'', ''GLD''),
      (''Toyota (TM)'', ''TM'')]"

definition main_color :: string where "main_color = ''#0057B7''"
definition accent_color :: string where "accent_color = ''#FFD700''"
definition card_bg :: string where "card_bg = ''#FFFFFF''"

record trace =
  trace_x :: "cell list"
  trace_y :: "cell list"
  trace_mode :: string
  trace_name :: string
  line_color :: "string option"
  line_width :: "int option"
  trace_fill :: "string option"
  trace_fillcolor :: "string option"

record figure =
  traces :: "trace list"
  layout :: "(string \<times> string) list"

datatype component =
    Div string "(string \<times> string) list"
  | Graph figure

text \<open>The two messages; each starts with the cross mark U+274C, three bytes in UTF-8.\<close>

definition cross_mark :: string where
  "cross_mark = [CHR 0xE2, CHR 0x9D, CHR 0x8C]"

definition no_data_message :: component where
  "no_data_message =
     Div (cross_mark @ '' No data found for selected asset or data fetch failed.'')
         [(''color'', main_color), (''fontWeight'', ''bold'')]"

definition forecast_failed_message :: component where
  "forecast_failed_message =
     Div (cross_mark @ '' Forecasting failed. Check data format.'')
         [(''color'', main_color), (''fontWeight'', ''bold'')]"

fun show_nat :: "nat \<Rightarrow> string" where
  "show_nat n = (if n < 10 then [char_of (48 + n)]
                 else show_nat (n div 10) @ [char_of (48 + n mod 10)])"

declare show_nat.simps [simp del]

definition show_int :: "int \<Rightarrow> string" where
  "show_int i = (if i < 0 then CHR ''-'' # show_nat (nat (- i)) else show_nat (nat i))"

text \<open>Line 213.\<close>

definition option_label :: "string \<Rightarrow> string" where
  "option_label ticker =
     (case filter (\<lambda>(lab, v). v = ticker) stock_options of
        [] \<Rightarrow> ticker
      | (lab, v) # rest \<Rightarrow> lab)"

definition scatter :: "cell list \<Rightarrow> cell list \<Rightarrow> string \<Rightarrow> trace" where
  "scatter xs ys nm =
     \<lparr>trace_x = xs, trace_y = ys, trace_mode = ''lines'', trace_name = nm,
      line_color = None, line_width = None, trace_fill = None, trace_fillcolor = None\<rparr>"

definition chart_layout :: "string \<Rightarrow> string \<Rightarrow> (string \<times> string) list" where
  "chart_layout ttl ytitle =
     [(''title'', ttl), (''xaxis_title'', ''Date''), (''yaxis_title'', ytitle),
      (''template'', ''plotly_white''), (''paper_bgcolor'', card_bg),
      (''plot_bgcolor'', card_bg)]"

text \<open>Lines 215 to 227: the historical view.\<close>

definition historical_figure :: "string \<Rightarrow> dataframe \<Rightarrow> exn + figure" where
  "historical_figure lab df =
     andThen (series (Name ''Date'') df)
       (\<lambda>dates. andThen (series (Name ''Close'') df)
         (\<lambda>closes. Inr \<lparr>traces = [(scatter dates closes ''Close Price'')
                                    \<lparr>line_color := Some main_color\<rparr>],
                        layout = chart_layout (lab @ '' - Historical Price'') ''Price''\<rparr>))"

text \<open>Lines 229 to 250: the forecast view.\<close>

definition forecast_figure :: "string \<Rightarrow> int \<Rightarrow> dataframe \<Rightarrow> dataframe \<Rightarrow> exn + figure" where
  "forecast_figure lab forecast_days df forecast =
     andThen (series (Name ''Date'') df)
       (\<lambda>dates. andThen (series (Name ''Close'') df)
         (\<lambda>closes. andThen (series (Name ''ds'') forecast)
           (\<lambda>ds. andThen (series (Name ''yhat'') forecast)
             (\<lambda>yhat. andThen (series (Name ''yhat_upper'') forecast)
               (\<lambda>upper. Inr \<lparr>traces =
                    [(scatter dates closes ''Actual'')\<lparr>line_color := Some main_color\<rparr>,
                     (scatter ds yhat ''Forecast'')\<lparr>line_color := Some accent_color\<rparr>,
                     (scatter ds upper ''Confidence Interval'')
                        \<lparr>line_width := Some 0, trace_fill := Some ''tonexty'',
                         trace_fillcolor := Some ''rgba(255, 215, 0, 0.12)''\<rparr>],
                  layout = chart_layout
                             (lab @ '' - '' @ show_int forecast_days @ ''-Day Forecast (Prophet)'')
                             ''Predicted Price''\<rparr>)))))"

text \<open>
  Lines 213 to 250. A tab that is neither \<^verbatim>\<open>tab1\<close> nor \<^verbatim>\<open>tab2\<close> falls off the end of the
  function, which then returns \<^verbatim>\<open>None\<close>.
\<close>

definition render :: "string \<Rightarrow> int \<Rightarrow> string \<Rightarrow> dataframe \<Rightarrow> dataframe
                       \<Rightarrow> exn + component option" where
  "render ticker forecast_days tab df forecast =
     (let lab = option_label ticker
      in if tab = ''tab1''
         then andThen (historical_figure lab df) (\<lambda>fig. Inr (Some (Graph fig)))
         else if tab = ''tab2''
         then andThen (forecast_figure lab forecast_days df forecast)
                (\<lambda>fig. Inr (Some (Graph fig)))
         else Inr None)"

text \<open>
  The callback, lines 202 to 250. Beside its result (\<open>Inl\<close> for an exception that
  leaves the function) the model returns the calls made to the two pipeline functions,
  in their order.
\<close>

datatype call = Call_get_stock_data string | Call_forecast_stock dataframe int

definition update_tab :: "env \<Rightarrow> string \<Rightarrow> int \<Rightarrow> string
                           \<Rightarrow> (exn + component option) \<times> call list" where
  "update_tab E ticker forecast_days tab =
     (let fetched = get_stock_data E ticker;
          calls1 = [Call_get_stock_data ticker]
      in case fetched of
           None \<Rightarrow> (Inr (Some no_data_message), calls1)
         | Some df \<Rightarrow>
             if empty_frame df then (Inr (Some no_data_message), calls1)
             else (let forecast = forecast_stock E df forecast_days;
                       calls2 = calls1 @ [Call_forecast_stock df forecast_days]
                   in case forecast of
                        None \<Rightarrow> (Inr (Some forecast_failed_message), calls2)
                      | Some fc \<Rightarrow>
                          if empty_frame fc then (Inr (Some forecast_failed_message), calls2)
                          else (render ticker forecast_days tab df fc, calls2)))"

section \<open>Derived notions and concrete inputs\<close>

text \<open>The timestamps of a cleaned table: the values of its \<^verbatim>\<open>Date\<close> column, in row order.\<close>

definition timestamps :: "dataframe \<Rightarrow> int list" where
  "timestamps df = (case series (Name ''Date'') df of Inl e \<Rightarrow> [] | Inr d \<Rightarrow> stamps d)"

text \<open>
  The day of the week of a timestamp, Monday being 0 as in Python's \<^verbatim>\<open>weekday()\<close>:
  1 January 1970 was a Thursday. A trading day, in the words of the specification, is at
  least not a Saturday or a Sunday.
\<close>

definition weekday :: "int \<Rightarrow> int" where
  "weekday t = (t div day_ns + 3) mod 7"

definition spec_trading_day :: "int \<Rightarrow> bool" where
  "spec_trading_day t = (weekday t < 5)"

text \<open>
  A table as \<^verbatim>\<open>yf.download\<close> delivers it for one ticker: a two-level header, the index
  named \<^verbatim>\<open>Date\<close>; the rows are Thursday 4 and Friday 5 January 2024.
\<close>

definition aapl_raw :: dataframe where
  "aapl_raw = \<lparr>multi = True, index_name = Some ''Date'',
               index = [Stamp (19726 * day_ns), Stamp (19727 * day_ns)],
               cols = [(Tuple [''Close'', ''AAPL''], [Num 10, Num 11]),
                       (Tuple [''Volume'', ''AAPL''], [Num 5, Num 6])]\<rparr>"

definition aapl_clean :: dataframe where
  "aapl_clean = \<lparr>multi = False, index_name = None, index = [Num 0, Num 1],
                 cols = [(Name ''Date'', [Stamp 1704326400000000000, Stamp 1704412800000000000]),
                         (Name ''Close'', [Num 10, Num 11]),
                         (Name ''Volume_AAPL'', [Num 5, Num 6])]\<rparr>"

text \<open>A table whose prices cannot be read, one whose rows come latest first, one without rows.\<close>

definition unparsed_raw :: dataframe where
  "unparsed_raw = \<lparr>multi = False, index_name = Some ''Date'',
                   index = [Stamp (19726 * day_ns), Stamp (19727 * day_ns)],
                   cols = [(Name ''Close'', [Text ''n/a'', NaN])]\<rparr>"

definition unparsed_clean :: dataframe where
  "unparsed_clean = \<lparr>multi = False, index_name = None, index = [],
                     cols = [(Name ''Date'', []), (Name ''Close'', [])]\<rparr>"

definition reversed_raw :: dataframe where
  "reversed_raw = \<lparr>multi = False, index_name = Some ''Date'',
                   index = [Stamp (19727 * day_ns), Stamp (19726 * day_ns)],
                   cols = [(Name ''Close'', [Num 11, Num 10])]\<rparr>"

definition reversed_clean :: dataframe where
  "reversed_clean = \<lparr>multi = False, index_name = None, index = [Num 0, Num 1],
                     cols = [(Name ''Date'', [Stamp 1704412800000000000, Stamp 1704326400000000000]),
                             (Name ''Close'', [Num 11, Num 10])]\<rparr>"

definition no_rows_raw :: dataframe where
  "no_rows_raw = \<lparr>multi = False, index_name = Some ''Date'', index = [],
                  cols = [(Name ''Close'', [])]\<rparr>"

text \<open>
  A table of three rows whose second price is missing, the table as it stands before rows
  are dropped, and the table \<^verbatim>\<open>get_stock_data\<close> returns for it: the index keeps the
  labels of the rows that stay.
\<close>

definition gap_raw :: dataframe where
  "gap_raw = \<lparr>multi = False, index_name = Some ''Date'',
              index = [Stamp (19726 * day_ns), Stamp (19727 * day_ns), Stamp (19730 * day_ns)],
              cols = [(Name ''Close'', [Num 10, NaN, Num 12])]\<rparr>"

definition gap_pre :: dataframe where
  "gap_pre = \<lparr>multi = False, index_name = None, index = [Num 0, Num 1, Num 2],
              cols = [(Name ''Date'', [Stamp 1704326400000000000, Stamp 1704412800000000000,
                                       Stamp 1704672000000000000]),
                      (Name ''Close'', [Num 10, NaN, Num 12])]\<rparr>"

definition gap_clean :: dataframe where
  "gap_clean = \<lparr>multi = False, index_name = None, index = [Num 0, Num 2],
                cols = [(Name ''Date'', [Stamp 1704326400000000000, Stamp 1704672000000000000]),
                        (Name ''Close'', [Num 10, Num 12])]\<rparr>"

text \<open>
  Libraries for the concrete runs: the provider knows five tickers and refuses every
  other one, no text converts, every fit succeeds with the same estimate.
\<close>

definition sample_env :: env where
  "sample_env =
     \<lparr>yf_download = (\<lambda>t. if t = ''AAPL'' then Inr aapl_raw
                          else if t = ''BAD'' then Inr unparsed_raw
                          else if t = ''REV'' then Inr reversed_raw
                          else if t = ''NONE'' then Inr no_rows_raw
                          else if t = ''GAP'' then Inr gap_raw
                          else Inl (ProviderError ''no data'')),
      parse_date = (\<lambda>c. None),
      parse_number = (\<lambda>c. None),
      prophet_estimate = (\<lambda>h. Inr (\<lambda>t. (1, 0, 2))),
      negative_periods_raise = True\<rparr>"

text \<open>
  The price series of the specification, as a property of a table: its \<^verbatim>\<open>Date\<close> column
  holds the timestamps \<open>ts\<close>, strictly increasing, its \<^verbatim>\<open>Close\<close> column the prices \<open>vs\<close>,
  and the table has as many rows as there are timestamps.
\<close>

definition price_series :: "int list \<Rightarrow> real list \<Rightarrow> dataframe \<Rightarrow> bool" where
  "price_series ts vs df =
     (series (Name ''Date'') df = Inr (map Stamp ts)
      \<and> series (Name ''Close'') df = Inr (map Num vs)
      \<and> length vs = length ts \<and> length (index df) = length ts
      \<and> sorted_wrt (<) ts)"

text \<open>The \<open>h\<close> calendar days that follow a timestamp.\<close>

definition future_days :: "int \<Rightarrow> int \<Rightarrow> int list" where
  "future_days last_date h = map (\<lambda>k. last_date + int k * day_ns) [1..<Suc (nat h)]"

text \<open>The timestamps of a forecast, and the forecasts of the concrete runs below.\<close>

definition forecast_dates :: "dataframe \<Rightarrow> int list" where
  "forecast_dates fc = (case series (Name ''ds'') fc of Inl e \<Rightarrow> [] | Inr d \<Rightarrow> stamps d)"

definition aapl_forecast :: dataframe where
  "aapl_forecast =
     \<lparr>multi = False, index_name = None,
      index = [Num 0, Num 1, Num 2, Num 3, Num 4, Num 5, Num 6, Num 7, Num 8],
      cols = [(Name ''ds'', [Stamp 1704326400000000000, Stamp 1704412800000000000, Stamp 1704499200000000000, Stamp 1704585600000000000, Stamp 1704672000000000000, Stamp 1704758400000000000, Stamp 1704844800000000000, Stamp 1704931200000000000, Stamp 1705017600000000000]),
              (Name ''yhat_lower'', [Num 0, Num 0, Num 0, Num 0, Num 0, Num 0, Num 0, Num 0, Num 0]),
              (Name ''yhat_upper'', [Num 2, Num 2, Num 2, Num 2, Num 2, Num 2, Num 2, Num 2, Num 2]),
              (Name ''yhat'', [Num 1, Num 1, Num 1, Num 1, Num 1, Num 1, Num 1, Num 1, Num 1])]\<rparr>"

definition aapl_history_forecast :: dataframe where
  "aapl_history_forecast =
     \<lparr>multi = False, index_name = None,
      index = [Num 0, Num 1],
      cols = [(Name ''ds'', [Stamp 1704326400000000000, Stamp 1704412800000000000]),
              (Name ''yhat_lower'', [Num 0, Num 0]),
              (Name ''yhat_upper'', [Num 2, Num 2]),
              (Name ''yhat'', [Num 1, Num 1])]\<rparr>"

text \<open>
  The rows in which date and price are both present, as a mask over the first \<open>n\<close> rows.
\<close>

definition complete_rows :: "cell list \<Rightarrow> cell list \<Rightarrow> nat \<Rightarrow> bool list" where
  "complete_rows ds cs n = take n (map2 (\<lambda>d c. d \<noteq> NaN \<and> c \<noteq> NaN) ds cs)"

text \<open>
  Modelled from the spec: the forecasting capability, which is the Prophet library and
  not code of the repository. The specification gives every row of its result the
  invariant \<^verbatim>\<open>lowerBound <= pointEstimate <= upperBound\<close>; here it is a property of the
  estimates the library returns from a fit, each a triple of point estimate, lower bound
  and upper bound.
\<close>

definition spec_forecast_bounds :: "env \<Rightarrow> bool" where
  "spec_forecast_bounds E =
     (\<forall>history est t. prophet_estimate E history = Inr est \<longrightarrow>
        (case est t of (point, lower, upper) \<Rightarrow> lower \<le> point \<and> point \<le> upper))"

section \<open>Properties of the table operations\<close>

lemma andThen_Inr_iff: "andThen m f = Inr y \<longleftrightarrow> (\<exists>x. m = Inr x \<and> f x = Inr y)"
  by (cases m) (simp_all add: andThen_def)

lemma series_Inr_iff: "series l df = Inr c \<longleftrightarrow> filter (\<lambda>(k, c). k = l) (cols df) = [(l, c)]"
proof
  assume a: "series l df = Inr c"
  show "filter (\<lambda>(k, c). k = l) (cols df) = [(l, c)]"
  proof (cases "filter (\<lambda>(k, c). k = l) (cols df)")
    case Nil
    with a show ?thesis by (simp add: series_def)
  next
    case (Cons p ps)
    obtain k v where p: "p = (k, v)" by (cases p)
    have "p \<in> set (filter (\<lambda>(k, c). k = l) (cols df))" using Cons by simp
    then have kl: "k = l" using p by auto
    from a Cons p show ?thesis
      by (cases ps) (simp_all add: series_def kl)
  qed
next
  assume "filter (\<lambda>(k, c). k = l) (cols df) = [(l, c)]"
  then show "series l df = Inr c" by (simp add: series_def)
qed

lemma series_in_labels: "series l df = Inr c \<Longrightarrow> l \<in> set (labels df)"
proof -
  assume "series l df = Inr c"
  then have "(l, c) \<in> set (filter (\<lambda>(k, c). k = l) (cols df))"
    by (simp add: series_Inr_iff)
  then show ?thesis by (force simp: labels_def)
qed

lemma filter_label_map:
  "filter (\<lambda>(k, c). k = l) (map (\<lambda>(k, c). (k, g k c)) xs)
     = map (\<lambda>(k, c). (k, g k c)) (filter (\<lambda>(k, c). k = l) xs)"
  by (induction xs) auto

lemma series_keep_rows: "series l df = Inr c \<Longrightarrow> series l (keep_rows m df) = Inr (select_rows m c)"
  using filter_label_map [of l "\<lambda>k c. select_rows m c" "cols df"]
  by (simp add: series_Inr_iff keep_rows_def)

lemma labels_keep_rows: "labels (keep_rows m df) = labels df"
  by (simp add: labels_def keep_rows_def case_prod_beta o_def)

lemma series_set_column_same: "series l df = Inr c \<Longrightarrow> series l (set_column l v df) = Inr v"
  using filter_label_map [of l "\<lambda>k c. if k = l then v else c" "cols df"] series_in_labels [of l df c]
  by (simp add: series_Inr_iff set_column_def)

lemma filter_label_set_other:
  "l \<noteq> j \<Longrightarrow> filter (\<lambda>(k, c). k = l) (map (\<lambda>(k, c). (k, if k = j then v else c)) xs)
     = filter (\<lambda>(k, c). k = l) xs"
  by (induction xs) auto

lemma series_set_column_other: "l \<noteq> j \<Longrightarrow> series l (set_column j v df) = series l df"
  by (simp add: series_def set_column_def filter_label_set_other)

lemma filter_label_rename_other:
  "l \<noteq> old \<Longrightarrow> l \<noteq> new \<Longrightarrow>
   filter (\<lambda>(k, c). k = l) (map (\<lambda>(k, c). (if k = old then new else k, c)) xs)
     = filter (\<lambda>(k, c). k = l) xs"
  by (induction xs) auto

lemma series_rename_other:
  "l \<noteq> old \<Longrightarrow> l \<noteq> new \<Longrightarrow> series l (rename old new df) = series l df"
  by (simp add: series_def rename_def filter_label_rename_other)

lemma map_fst_set_values: "map fst (map (\<lambda>(k, c). (k, g k c)) xs) = map fst xs"
  by (induction xs) auto

lemma labels_set_column_list:
  "labels (set_column l v df) = (if l \<in> set (labels df) then labels df else labels df @ [l])"
  using map_fst_set_values [of "\<lambda>k c. if k = l then v else c" "cols df"]
  by (simp add: labels_def set_column_def del: map_map)

lemma labels_set_column: "set (labels (set_column l v df)) = insert l (set (labels df))"
  by (auto simp: labels_set_column_list)

lemma contains_Close_Date: "\<not> py_in ''Close'' (Name ''Date'')"
  by simp

lemma series_resolve_close_Date:
  "series (Name ''Date'') (resolve_close df) = series (Name ''Date'') df"
proof (cases "Name ''Close'' \<notin> set (labels df)")
  case False
  then show ?thesis by (simp add: resolve_close_def)
next
  case True
  show ?thesis
  proof (cases "filter (py_in ''Close'') (labels df)")
    case Nil
    with True show ?thesis by (simp add: resolve_close_def)
  next
    case (Cons c rest)
    then have "c \<in> set (filter (py_in ''Close'') (labels df))" by simp
    then have "py_in ''Close'' c" by simp
    then have "c \<noteq> Name ''Date''" using contains_Close_Date by auto
    with True Cons show ?thesis
      by (simp add: resolve_close_def series_rename_other)
  qed
qed

text \<open>Rows kept by a mask built from a column are not missing in that column.\<close>

lemma select_rows_set:
  "x \<in> set (select_rows m xs) \<longleftrightarrow> (\<exists>i. i < length m \<and> i < length xs \<and> m ! i \<and> xs ! i = x)"
  by (auto simp: select_rows_def in_set_zip image_iff) 

lemma row_mask_length_le: "length (row_mask ss n) \<le> n"
  by (induction ss) (simp_all add: row_mask_def)

lemma row_mask_Cons: "row_mask (s # ss) n = map2 (\<and>) (notna s) (row_mask ss n)"
  by (simp add: row_mask_def)

lemma row_mask_sound:
  "s \<in> set ss \<Longrightarrow> i < length (row_mask ss n) \<Longrightarrow> row_mask ss n ! i \<Longrightarrow> i < length s \<and> s ! i \<noteq> NaN"
proof (induction ss arbitrary: i)
  case Nil
  then show ?case by simp
next
  case (Cons a ss)
  from Cons.prems(2) have la: "i < length a" and lr: "i < length (row_mask ss n)"
    by (simp_all add: row_mask_Cons notna_def)
  from Cons.prems(3) la lr have ai: "a ! i \<noteq> NaN" and ri: "row_mask ss n ! i"
    by (simp_all add: row_mask_Cons notna_def)
  show ?case
  proof (cases "s = a")
    case True
    with la ai show ?thesis by simp
  next
    case False
    with Cons.prems(1) have "s \<in> set ss" by simp
    from Cons.IH [OF this lr ri] show ?thesis .
  qed
qed

lemma select_rows_notna:
  "s \<in> set ss \<Longrightarrow> x \<in> set (select_rows (row_mask ss n) s) \<Longrightarrow> x \<noteq> NaN"
  using row_mask_sound [of s ss _ n] by (auto simp: select_rows_set)

lemma get_stock_data_SomeD:
  assumes "get_stock_data E t = Some out"
  shows "\<exists>raw pre. yf_download E t = Inr raw \<and> \<not> empty_frame raw
            \<and> clean_columns E raw = Inr pre
            \<and> dropna_subset [Name ''Date'', Name ''Close''] pre = Inr out"
proof -
  from assms have b: "get_stock_data_body E t = Inr (Some out)"
    by (simp add: get_stock_data_def split: sum.splits)
  then obtain raw where r: "yf_download E t = Inr raw"
    and rest: "(if empty_frame raw then Inr None
                else andThen (clean_columns E raw)
                       (\<lambda>df1. andThen (dropna_subset [Name ''Date'', Name ''Close''] df1)
                         (\<lambda>df2. Inr (Some df2)))) = Inr (Some out)"
    by (auto simp: get_stock_data_body_def andThen_Inr_iff)
  from rest have ne: "\<not> empty_frame raw" by (auto split: if_splits)
  with rest obtain pre where "clean_columns E raw = Inr pre"
    and "dropna_subset [Name ''Date'', Name ''Close''] pre = Inr out"
    by (auto simp: andThen_Inr_iff)
  with r ne show ?thesis by blast
qed

lemma coerce_date_series:
  "coerce_date E df = Inr df' \<Longrightarrow> \<exists>d. series (Name ''Date'') df = Inr d
      \<and> series (Name ''Date'') df' = Inr (to_datetime E d)"
  by (auto simp: coerce_date_def andThen_Inr_iff series_set_column_same)

lemma coerce_close_series:
  "coerce_close E df = Inr df' \<Longrightarrow> \<exists>c. series (Name ''Close'') df = Inr c
      \<and> series (Name ''Close'') df' = Inr (to_numeric E c)
      \<and> series (Name ''Date'') df' = series (Name ''Date'') df"
  by (auto simp: coerce_close_def andThen_Inr_iff series_set_column_same series_set_column_other)

lemma clean_columns_series:
  assumes "clean_columns E raw = Inr pre"
  shows "\<exists>d c. series (Name ''Date'') pre = Inr (to_datetime E d)
             \<and> series (Name ''Close'') pre = Inr (to_numeric E c)"
proof -
  from assms obtain df1 df2 where "coerce_date E (resolve_date df1) = Inr df2"
    and c: "coerce_close E (resolve_close df2) = Inr pre"
    by (auto simp: clean_columns_def andThen_Inr_iff)
  then obtain d where d: "series (Name ''Date'') df2 = Inr (to_datetime E d)"
    using coerce_date_series by blast
  from coerce_close_series [OF c] obtain c' where
    "series (Name ''Close'') pre = Inr (to_numeric E c')"
    "series (Name ''Date'') pre = series (Name ''Date'') (resolve_close df2)"
    by blast
  with d show ?thesis by (auto simp: series_resolve_close_Date)
qed

lemma series_in_cols: "series l df = Inr s \<Longrightarrow> (l, s) \<in> set (cols df)"
proof -
  assume "series l df = Inr s"
  then have "(l, s) \<in> set (filter (\<lambda>(k, c). k = l) (cols df))"
    by (simp add: series_Inr_iff)
  then show ?thesis by simp
qed

lemma dropna_subset_series:
  assumes d: "dropna_subset keys df = Inr out" and l: "l \<in> set keys"
    and s: "series l df = Inr s"
  shows "\<exists>m. out = keep_rows m df \<and> series l out = Inr (select_rows m s)
            \<and> NaN \<notin> set (select_rows m s)"
proof -
  let ?ss = "map snd (filter (\<lambda>(k, c). k \<in> set keys) (cols df))"
  let ?m = "row_mask ?ss (length (index df))"
  from d have out: "out = keep_rows ?m df"
    by (simp add: dropna_subset_def split: if_splits)
  from series_in_cols [OF s] l have "s \<in> set ?ss" by force
  then have "NaN \<notin> set (select_rows ?m s)"
    using select_rows_notna by blast
  with out series_keep_rows [OF s] show ?thesis by blast
qed

lemma subseq_select_rows: "subseq (select_rows m xs) xs"
proof (induction m arbitrary: xs)
  case Nil
  then show ?case by (simp add: select_rows_def)
next
  case (Cons b m)
  show ?case
  proof (cases xs)
    case Nil
    then show ?thesis by (simp add: select_rows_def)
  next
    case (Cons x xs')
    have ih: "subseq (select_rows m xs') xs'" by (rule Cons.IH)
    show ?thesis
    proof (cases b)
      case True
      with ih Cons show ?thesis by (simp add: select_rows_def)
    next
      case False
      from ih have "subseq (select_rows m xs') (x # xs')" by (rule list_emb_Cons)
      with False Cons show ?thesis by (simp add: select_rows_def)
    qed
  qed
qed

lemma stamps_Nil: "stamps [] = []"
  by (simp add: stamps_def)

lemma stamps_Cons: "stamps (c # s) = (case c of Stamp t \<Rightarrow> [t] | _ \<Rightarrow> []) @ stamps s"
  by (simp add: stamps_def)

lemma subseq_stamps: "subseq xs ys \<Longrightarrow> subseq (stamps xs) (stamps ys)"
proof (induction rule: list_emb.induct)
  case (list_emb_Nil ys)
  then show ?case by (simp add: stamps_Nil)
next
  case (list_emb_Cons xs ys y)
  then show ?case by (simp add: stamps_Cons list_emb_append2)
next
  case (list_emb_Cons2 x y xs ys)
  then show ?case by (simp add: stamps_Cons list_emb_append_mono)
qed

lemma sorted_wrt_subseq_less:
  "subseq xs ys \<Longrightarrow> sorted_wrt (<) (ys :: int list) \<Longrightarrow> sorted_wrt (<) xs"
proof (induction rule: list_emb.induct)
  case (list_emb_Nil ys)
  then show ?case by simp
next
  case (list_emb_Cons xs ys y)
  then show ?case by simp
next
  case (list_emb_Cons2 x y xs ys)
  then have "sorted_wrt (<) xs" and "\<forall>z \<in> set ys. y < z" and "x = y" by simp_all
  moreover have "set xs \<subseteq> set ys"
    using list_emb_Cons2.hyps(2) by (auto elim: list_emb_set)
  ultimately show ?case by auto
qed

text \<open>The mask of \<^verbatim>\<open>dropna\<close> over two columns keeps the rows complete in both.\<close>

lemma row_mask_length: "length (row_mask ss n) = Min (insert n (length ` set ss))"
proof (induction ss)
  case Nil
  then show ?case by (simp add: row_mask_def)
next
  case (Cons s ss)
  have "Min (insert n (length ` set (s # ss))) = Min (insert (length s) (insert n (length ` set ss)))"
    by (simp add: insert_commute)
  also have "\<dots> = min (length s) (Min (insert n (length ` set ss)))"
    by (rule Min_insert) simp_all
  finally show ?case using Cons by (simp add: row_mask_Cons notna_def)
qed

lemma row_mask_nth:
  "i < length (row_mask ss n) \<Longrightarrow> row_mask ss n ! i = (\<forall>s \<in> set ss. s ! i \<noteq> NaN)"
proof (induction ss)
  case Nil
  then show ?case by (simp add: row_mask_def)
next
  case (Cons s ss)
  then show ?case by (simp add: row_mask_Cons notna_def)
qed

lemma complete_rows_length:
  "length (complete_rows ds cs n) = min n (min (length ds) (length cs))"
  by (simp add: complete_rows_def min.commute)

lemma complete_rows_nth:
  "i < length (complete_rows ds cs n) \<Longrightarrow>
     complete_rows ds cs n ! i = (ds ! i \<noteq> NaN \<and> cs ! i \<noteq> NaN)"
  by (simp add: complete_rows_def)

lemma row_mask_two:
  assumes "set ss = {ds, cs}"
  shows "row_mask ss n = complete_rows ds cs n"
proof (rule nth_equalityI)
  show len: "length (row_mask ss n) = length (complete_rows ds cs n)"
    by (simp add: row_mask_length complete_rows_length assms)
  fix i assume i: "i < length (row_mask ss n)"
  with len have "i < length (complete_rows ds cs n)" by simp
  from row_mask_nth [OF i] complete_rows_nth [OF this] assms
  show "row_mask ss n ! i = complete_rows ds cs n ! i" by simp
qed

lemma subset_columns:
  assumes "series a df = Inr x" and "series b df = Inr y"
  shows "set (map snd (filter (\<lambda>(l, c). l \<in> set [a, b]) (cols df))) = {x, y}"
proof -
  have "set (filter (\<lambda>(l, c). l \<in> set [a, b]) (cols df)) =
          set (filter (\<lambda>(k, c). k = a) (cols df)) \<union> set (filter (\<lambda>(k, c). k = b) (cols df))"
    by auto
  also have "\<dots> = {(a, x), (b, y)}"
    using assms by (auto simp: series_Inr_iff)
  finally show ?thesis by simp
qed

lemma select_rows_complete_fst:
  "select_rows (complete_rows ds cs n) ds =
     map fst (filter (\<lambda>(d, c). d \<noteq> NaN \<and> c \<noteq> NaN) (take n (zip ds cs)))"
proof (induction ds arbitrary: cs n)
  case Nil
  then show ?case by (simp add: select_rows_def complete_rows_def)
next
  case (Cons d ds)
  show ?case
  proof (cases cs)
    case Nil
    then show ?thesis by (simp add: select_rows_def complete_rows_def)
  next
    case (Cons c cs')
    show ?thesis
    proof (cases n)
      case 0
      then show ?thesis by (simp add: select_rows_def complete_rows_def)
    next
      case (Suc k)
      from Cons.IH [of cs' k] Cons Suc show ?thesis
        by (simp add: select_rows_def complete_rows_def)
    qed
  qed
qed

lemma select_rows_complete_snd:
  "select_rows (complete_rows ds cs n) cs =
     map snd (filter (\<lambda>(d, c). d \<noteq> NaN \<and> c \<noteq> NaN) (take n (zip ds cs)))"
proof (induction ds arbitrary: cs n)
  case Nil
  then show ?case by (simp add: select_rows_def complete_rows_def)
next
  case (Cons d ds)
  show ?case
  proof (cases cs)
    case Nil
    then show ?thesis by (simp add: select_rows_def complete_rows_def)
  next
    case (Cons c cs')
    show ?thesis
    proof (cases n)
      case 0
      then show ?thesis by (simp add: select_rows_def complete_rows_def)
    next
      case (Suc k)
      from Cons.IH [of cs' k] Cons Suc show ?thesis
        by (simp add: select_rows_def complete_rows_def)
    qed
  qed
qed

section \<open>Claims about \<^verbatim>\<open>get_stock_data\<close>\<close>

lemma get_stock_data_series:
  assumes "get_stock_data E ticker = Some df"
  shows "\<exists>raw pre dp cp m.
           yf_download E ticker = Inr raw \<and> clean_columns E raw = Inr pre
           \<and> series (Name ''Date'') pre = Inr dp \<and> series (Name ''Close'') pre = Inr cp
           \<and> df = keep_rows m pre
           \<and> series (Name ''Date'') df = Inr (select_rows m dp)
           \<and> series (Name ''Close'') df = Inr (select_rows m cp)
           \<and> NaN \<notin> set (select_rows m dp) \<and> NaN \<notin> set (select_rows m cp)"
proof -
  from get_stock_data_SomeD [OF assms] obtain raw pre where
    raw: "yf_download E ticker = Inr raw" and pre: "clean_columns E raw = Inr pre"
    and drop: "dropna_subset [Name ''Date'', Name ''Close''] pre = Inr df"
    by blast
  from clean_columns_series [OF pre] obtain dp cp where
    dp: "series (Name ''Date'') pre = Inr dp" and cp: "series (Name ''Close'') pre = Inr cp"
    by blast
  let ?ss = "map snd (filter (\<lambda>(k, c). k \<in> set [Name ''Date'', Name ''Close'']) (cols pre))"
  let ?m = "row_mask ?ss (length (index pre))"
  from drop have df: "df = keep_rows ?m pre"
    by (simp add: dropna_subset_def split: if_splits)
  have "dp \<in> set ?ss" using series_in_cols [OF dp] by force
  then have ndp: "NaN \<notin> set (select_rows ?m dp)" using select_rows_notna by blast
  have "cp \<in> set ?ss" using series_in_cols [OF cp] by force
  then have ncp: "NaN \<notin> set (select_rows ?m cp)" using select_rows_notna by blast
  from raw pre dp cp df ndp ncp series_keep_rows [OF dp, of ?m] series_keep_rows [OF cp, of ?m]
  show ?thesis by blast
qed

text \<open>
  Claim C10. Whenever \<^verbatim>\<open>get_stock_data\<close> returns a table, the table has a \<^verbatim>\<open>Date\<close>
  column and a \<^verbatim>\<open>Close\<close> column (exactly one of each, so that \<^verbatim>\<open>df["Date"]\<close> and
  \<^verbatim>\<open>df["Close"]\<close> are series), and no row has a missing value in either.
\<close>

theorem get_stock_data_columns_complete:
  assumes "get_stock_data E ticker = Some df"
  shows "Name ''Date'' \<in> set (labels df) \<and> Name ''Close'' \<in> set (labels df)
         \<and> (\<exists>d c. series (Name ''Date'') df = Inr d \<and> series (Name ''Close'') df = Inr c
                   \<and> NaN \<notin> set d \<and> NaN \<notin> set c)"
proof -
  from get_stock_data_series [OF assms] obtain d c where
    d: "series (Name ''Date'') df = Inr d" and c: "series (Name ''Close'') df = Inr c"
    and n: "NaN \<notin> set d" "NaN \<notin> set c"
    by blast
  from series_in_labels [OF d] series_in_labels [OF c] d c n show ?thesis by blast
qed

text \<open>Claim C10 on the table of the ticker AAPL.\<close>

theorem get_stock_data_columns_complete_witness:
  "get_stock_data sample_env ''AAPL'' = Some aapl_clean
   \<and> Name ''Date'' \<in> set (labels aapl_clean) \<and> Name ''Close'' \<in> set (labels aapl_clean)
   \<and> (\<exists>d c. series (Name ''Date'') aapl_clean = Inr d \<and> series (Name ''Close'') aapl_clean = Inr c
             \<and> NaN \<notin> set d \<and> NaN \<notin> set c)"
proof -
  have h: "get_stock_data sample_env ''AAPL'' = Some aapl_clean" by code_simp
  from get_stock_data_columns_complete [OF h] h show ?thesis by simp
qed

text \<open>
  Claim C6. When the download raises, when it returns an empty table, and when any later
  step of the body raises, \<^verbatim>\<open>get_stock_data\<close> returns \<^verbatim>\<open>None\<close>: the handler of line 55
  catches every exception, so none leaves the function.
\<close>

theorem get_stock_data_contains_failures:
  assumes "yf_download E ticker = Inl e
           \<or> (\<exists>raw. yf_download E ticker = Inr raw \<and> empty_frame raw)
           \<or> (\<exists>e'. get_stock_data_body E ticker = Inl e')"
  shows "get_stock_data E ticker = None"
  using assms
  by (auto simp: get_stock_data_def get_stock_data_body_def andThen_def)

text \<open>
  Claim C6 on the empty ticker, which the provider refuses, and on a ticker for which it
  answers with a table without rows.
\<close>

theorem get_stock_data_contains_failures_witness:
  "yf_download sample_env '''' = Inl (ProviderError ''no data'')
   \<and> get_stock_data sample_env '''' = None
   \<and> yf_download sample_env ''NONE'' = Inr no_rows_raw \<and> empty_frame no_rows_raw
   \<and> get_stock_data sample_env ''NONE'' = None"
proof -
  have a: "yf_download sample_env '''' = Inl (ProviderError ''no data'')" by code_simp
  have b: "yf_download sample_env ''NONE'' = Inr no_rows_raw" by code_simp
  have c: "empty_frame no_rows_raw" by code_simp
  from a have "get_stock_data sample_env '''' = None"
    using get_stock_data_contains_failures [of sample_env "''''" "ProviderError ''no data''"]
    by blast
  moreover from b c have "get_stock_data sample_env ''NONE'' = None"
    using get_stock_data_contains_failures [of sample_env "''NONE''"] by blast
  ultimately show ?thesis using a b c by blast
qed

text \<open>
  Claim C3 as stated fails: \<^verbatim>\<open>get_stock_data\<close> neither sorts nor removes duplicates. A
  table whose two rows, both with a date and a price, come latest first is returned
  latest first.
\<close>

theorem get_stock_data_unsorted_counterexample:
  "yf_download sample_env ''REV'' = Inr reversed_raw
   \<and> get_stock_data sample_env ''REV'' = Some reversed_clean
   \<and> timestamps reversed_clean = [1704412800000000000, 1704326400000000000]
   \<and> \<not> sorted_wrt (<) (timestamps reversed_clean)"
  by code_simp

text \<open>
  Claim C3, amended. The result is the cleaned table restricted to the rows in which date
  and price are both present: every such row stays, no other row does, and the rows keep
  their order, so nothing is sorted and nothing is de-duplicated. No date and no price of
  the result is missing. Its timestamps are a subsequence of those of the cleaned table;
  they are strictly increasing and unique whenever those of the cleaned table are.
\<close>

theorem get_stock_data_keeps_rows_in_order:
  assumes "get_stock_data E ticker = Some df"
    and "yf_download E ticker = Inr raw"
    and "clean_columns E raw = Inr pre"
  shows "\<exists>dp cp dates closes.
           series (Name ''Date'') pre = Inr dp \<and> series (Name ''Close'') pre = Inr cp
           \<and> df = keep_rows (complete_rows dp cp (length (index pre))) pre
           \<and> series (Name ''Date'') df = Inr dates \<and> series (Name ''Close'') df = Inr closes
           \<and> dates = map fst (filter (\<lambda>(d, c). d \<noteq> NaN \<and> c \<noteq> NaN)
                                    (take (length (index pre)) (zip dp cp)))
           \<and> closes = map snd (filter (\<lambda>(d, c). d \<noteq> NaN \<and> c \<noteq> NaN)
                                     (take (length (index pre)) (zip dp cp)))
           \<and> NaN \<notin> set dates \<and> NaN \<notin> set closes
           \<and> subseq (timestamps df) (timestamps pre)
           \<and> (sorted_wrt (<) (timestamps pre)
                \<longrightarrow> sorted_wrt (<) (timestamps df) \<and> distinct (timestamps df))"
proof -
  from get_stock_data_SomeD [OF assms(1)] assms(2,3) have
    drop: "dropna_subset [Name ''Date'', Name ''Close''] pre = Inr df"
    by auto
  from clean_columns_series [OF assms(3)] obtain dp cp where
    dp: "series (Name ''Date'') pre = Inr dp" and cp: "series (Name ''Close'') pre = Inr cp"
    by blast
  let ?n = "length (index pre)"
  let ?m = "complete_rows dp cp ?n"
  let ?rows = "filter (\<lambda>(d, c). d \<noteq> NaN \<and> c \<noteq> NaN) (take ?n (zip dp cp))"
  have "row_mask (map snd (filter (\<lambda>(l, c). l \<in> set [Name ''Date'', Name ''Close''])
                                  (cols pre))) ?n = ?m"
    by (rule row_mask_two) (rule subset_columns [OF dp cp])
  with drop have df: "df = keep_rows ?m pre"
    by (simp add: dropna_subset_def split: if_splits)
  have d: "series (Name ''Date'') df = Inr (map fst ?rows)"
    and c: "series (Name ''Close'') df = Inr (map snd ?rows)"
    using series_keep_rows [OF dp, of ?m] series_keep_rows [OF cp, of ?m] df
    by (simp_all add: select_rows_complete_fst select_rows_complete_snd)
  have nd: "NaN \<notin> set (map fst ?rows)" and nc: "NaN \<notin> set (map snd ?rows)"
    by auto
  have "subseq (select_rows ?m dp) dp" by (rule subseq_select_rows)
  then have "subseq (map fst ?rows) dp" by (simp add: select_rows_complete_fst)
  from subseq_stamps [OF this] have sub: "subseq (timestamps df) (timestamps pre)"
    by (simp add: timestamps_def dp d)
  have srt: "sorted_wrt (<) (timestamps pre)
               \<longrightarrow> sorted_wrt (<) (timestamps df) \<and> distinct (timestamps df)"
  proof
    assume "sorted_wrt (<) (timestamps pre)"
    from sorted_wrt_subseq_less [OF sub this] have s: "sorted_wrt (<) (timestamps df)" .
    then have "distinct (timestamps df)" by (simp add: strict_sorted_iff)
    with s show "sorted_wrt (<) (timestamps df) \<and> distinct (timestamps df)" ..
  qed
  from dp cp df d c nd nc sub srt show ?thesis by blast
qed

text \<open>
  Claim C3, amended, on a table of three rows whose second price is missing: the first
  and the third row are returned, in this order.
\<close>

theorem get_stock_data_keeps_rows_in_order_witness:
  "get_stock_data sample_env ''GAP'' = Some gap_clean
   \<and> yf_download sample_env ''GAP'' = Inr gap_raw
   \<and> clean_columns sample_env gap_raw = Inr gap_pre
   \<and> gap_clean = keep_rows [True, False, True] gap_pre
   \<and> series (Name ''Date'') gap_clean
       = Inr [Stamp 1704326400000000000, Stamp 1704672000000000000]
   \<and> series (Name ''Close'') gap_clean = Inr [Num 10, Num 12]
   \<and> sorted_wrt (<) (timestamps gap_pre)
   \<and> sorted_wrt (<) (timestamps gap_clean) \<and> distinct (timestamps gap_clean)"
proof -
  have h: "get_stock_data sample_env ''GAP'' = Some gap_clean" by code_simp
  have r: "yf_download sample_env ''GAP'' = Inr gap_raw" by code_simp
  have p: "clean_columns sample_env gap_raw = Inr gap_pre" by code_simp
  have s: "sorted_wrt (<) (timestamps gap_pre)" by code_simp
  have k: "gap_clean = keep_rows [True, False, True] gap_pre" by code_simp
  have d: "series (Name ''Date'') gap_clean
             = Inr [Stamp 1704326400000000000, Stamp 1704672000000000000]" by code_simp
  have c: "series (Name ''Close'') gap_clean = Inr [Num 10, Num 12]" by code_simp
  from get_stock_data_keeps_rows_in_order [OF h r p] s
  have "sorted_wrt (<) (timestamps gap_clean) \<and> distinct (timestamps gap_clean)" by blast
  with h r p s k d c show ?thesis by blast
qed

section \<open>Claims about \<^verbatim>\<open>update_tab\<close> and \<^verbatim>\<open>forecast_stock\<close>\<close>

lemma predict_Inr:
  assumes "predict m future = Inr fc"
  shows "future \<noteq> [] \<and> \<not> empty_frame fc
         \<and> series (Name ''ds'') fc = Inr (map Stamp future)
         \<and> series (Name ''yhat_lower'') fc = Inr (map (\<lambda>t. Num (fst (snd (estimator m t)))) future)
         \<and> series (Name ''yhat_upper'') fc = Inr (map (\<lambda>t. Num (snd (snd (estimator m t)))) future)
         \<and> series (Name ''yhat'') fc = Inr (map (\<lambda>t. Num (fst (estimator m t))) future)"
proof -
  from assms have ne: "future \<noteq> []" by (auto simp: predict_def split: if_splits)
  with assms have fc: "fc = \<lparr>multi = False, index_name = None,
                index = range_index (length future),
                cols = [(Name ''ds'', map Stamp future),
                        (Name ''yhat_lower'', map (\<lambda>t. Num (fst (snd (estimator m t)))) future),
                        (Name ''yhat_upper'', map (\<lambda>t. Num (snd (snd (estimator m t)))) future),
                        (Name ''yhat'', map (\<lambda>t. Num (fst (estimator m t))) future)]\<rparr>"
    by (simp add: predict_def)
  from ne have "range_index (length future) \<noteq> []" by (simp add: range_index_def)
  then have "\<not> empty_frame fc" by (simp add: fc empty_frame_def)
  with ne show ?thesis by (simp add: fc series_def)
qed

lemma forecast_stock_SomeD:
  assumes "forecast_stock E df periods = Some fc"
  shows "\<exists>model_df model future.
           prophet_fit E model_df = Inr model
           \<and> make_future_dataframe E model periods = Inr future
           \<and> predict model future = Inr fc"
proof -
  from assms have "forecast_stock_body E df periods = Inr fc"
    by (simp add: forecast_stock_def split: sum.splits)
  then show ?thesis
    unfolding forecast_stock_body_def Let_def andThen_Inr_iff by blast
qed

lemma forecast_stock_series:
  assumes "forecast_stock E df periods = Some fc"
  shows "\<not> empty_frame fc
         \<and> (\<exists>ds yhat upper. series (Name ''ds'') fc = Inr ds
               \<and> series (Name ''yhat'') fc = Inr yhat
               \<and> series (Name ''yhat_upper'') fc = Inr upper
               \<and> length yhat = length ds \<and> length upper = length ds)"
proof -
  from forecast_stock_SomeD [OF assms] obtain model future where
    "predict model future = Inr fc" by blast
  from predict_Inr [OF this] show ?thesis by simp
qed

lemma get_stock_data_has_series:
  assumes "get_stock_data E ticker = Some df"
  shows "\<exists>dates closes. series (Name ''Date'') df = Inr dates
                       \<and> series (Name ''Close'') df = Inr closes"
  using get_stock_data_series [OF assms] by blast

lemma no_data_not_failed: "no_data_message \<noteq> forecast_failed_message"
  by (simp add: no_data_message_def forecast_failed_message_def)

text \<open>
  Claim C1. When the provider returns a table without rows, when \<^verbatim>\<open>get_stock_data\<close>
  returns \<^verbatim>\<open>None\<close>, and when the cleaned table is empty because every row was dropped,
  \<^verbatim>\<open>update_tab\<close> returns the "no data" message, not the "forecast failed" message, and
  its only call is the one to \<^verbatim>\<open>get_stock_data\<close>: \<^verbatim>\<open>forecast_stock\<close> is not called.
\<close>

theorem update_tab_no_data:
  assumes "(\<exists>raw. yf_download E ticker = Inr raw \<and> empty_frame raw)
           \<or> get_stock_data E ticker = None
           \<or> (\<exists>df. get_stock_data E ticker = Some df \<and> empty_frame df)"
  shows "fst (update_tab E ticker forecast_days tab) = Inr (Some no_data_message)
         \<and> fst (update_tab E ticker forecast_days tab) \<noteq> Inr (Some forecast_failed_message)
         \<and> snd (update_tab E ticker forecast_days tab) = [Call_get_stock_data ticker]
         \<and> (\<forall>df n. Call_forecast_stock df n \<notin> set (snd (update_tab E ticker forecast_days tab)))"
proof -
  have "get_stock_data E ticker = None
        \<or> (\<exists>df. get_stock_data E ticker = Some df \<and> empty_frame df)"
    using assms
    by (auto simp: get_stock_data_def get_stock_data_body_def andThen_def)
  then show ?thesis
    by (auto simp: update_tab_def Let_def no_data_not_failed)
qed

text \<open>
  Claim C1 on a table whose prices cannot be read, so that every row is dropped, and on
  a ticker the provider refuses.
\<close>

theorem update_tab_no_data_witness:
  "get_stock_data sample_env ''BAD'' = Some unparsed_clean \<and> empty_frame unparsed_clean
   \<and> update_tab sample_env ''BAD'' 30 ''tab2'' = (Inr (Some no_data_message), [Call_get_stock_data ''BAD''])
   \<and> get_stock_data sample_env '''' = None
   \<and> update_tab sample_env '''' 30 ''tab2'' = (Inr (Some no_data_message), [Call_get_stock_data ''''])"
proof -
  have a: "get_stock_data sample_env ''BAD'' = Some unparsed_clean" by code_simp
  have b: "empty_frame unparsed_clean" by code_simp
  have c: "get_stock_data sample_env '''' = None" by code_simp
  from a b have "fst (update_tab sample_env ''BAD'' 30 ''tab2'') = Inr (Some no_data_message)
      \<and> snd (update_tab sample_env ''BAD'' 30 ''tab2'') = [Call_get_stock_data ''BAD'']"
    using update_tab_no_data [of sample_env "''BAD''" 30 "''tab2''"] by blast
  moreover from c have "fst (update_tab sample_env '''' 30 ''tab2'') = Inr (Some no_data_message)
      \<and> snd (update_tab sample_env '''' 30 ''tab2'') = [Call_get_stock_data '''']"
    using update_tab_no_data [of sample_env "''''" 30 "''tab2''"] by blast
  ultimately show ?thesis using a b c by (simp add: prod_eq_iff)
qed

lemma render_tab1:
  assumes "series (Name ''Date'') df = Inr dates" and "series (Name ''Close'') df = Inr closes"
  shows "render ticker forecast_days ''tab1'' df fc =
           Inr (Some (Graph \<lparr>traces = [(scatter dates closes ''Close Price'')
                                          \<lparr>line_color := Some main_color\<rparr>],
                              layout = chart_layout (option_label ticker @ '' - Historical Price'')
                                         ''Price''\<rparr>))"
  using assms by (simp add: render_def historical_figure_def andThen_def)

lemma render_tab2:
  assumes "series (Name ''Date'') df = Inr dates" and "series (Name ''Close'') df = Inr closes"
    and "series (Name ''ds'') fc = Inr ds" and "series (Name ''yhat'') fc = Inr yhat"
    and "series (Name ''yhat_upper'') fc = Inr upper"
  shows "render ticker forecast_days ''tab2'' df fc =
           Inr (Some (Graph \<lparr>traces =
                    [(scatter dates closes ''Actual'')\<lparr>line_color := Some main_color\<rparr>,
                     (scatter ds yhat ''Forecast'')\<lparr>line_color := Some accent_color\<rparr>,
                     (scatter ds upper ''Confidence Interval'')
                        \<lparr>line_width := Some 0, trace_fill := Some ''tonexty'',
                         trace_fillcolor := Some ''rgba(255, 215, 0, 0.12)''\<rparr>],
                  layout = chart_layout
                             (option_label ticker @ '' - '' @ show_int forecast_days
                                @ ''-Day Forecast (Prophet)'')
                             ''Predicted Price''\<rparr>))"
  using assms by (simp add: render_def forecast_figure_def andThen_def)

lemma update_tab_success:
  assumes "get_stock_data E ticker = Some df" and "\<not> empty_frame df"
    and "forecast_stock E df forecast_days = Some fc"
  shows "update_tab E ticker forecast_days tab =
           (render ticker forecast_days tab df fc,
            [Call_get_stock_data ticker, Call_forecast_stock df forecast_days])"
  using assms forecast_stock_series [OF assms(3)] by (simp add: update_tab_def)


text \<open>
  Claim C7. When fetch and forecast succeed, the historical view is a chart of exactly
  one trace, whose abscissa is the whole \<^verbatim>\<open>Date\<close> column and whose ordinate is the whole
  \<^verbatim>\<open>Close\<close> column of the fetched table. The forecast view is a chart of exactly three
  traces: the same actual prices; the point estimate \<^verbatim>\<open>yhat\<close> over all timestamps \<^verbatim>\<open>ds\<close>
  of the forecast; the upper bound \<^verbatim>\<open>yhat_upper\<close> over the same timestamps, the only
  trace with a fill, which goes down to the trace before it (\<^verbatim>\<open>tonexty\<close>), the point
  estimate. No trace holds the lower bound.
\<close>

theorem update_tab_chart_traces:
  assumes "get_stock_data E ticker = Some df" and "\<not> empty_frame df"
    and "forecast_stock E df forecast_days = Some fc"
  shows "\<exists>dates closes ds yhat upper fig1 fig2.
           series (Name ''Date'') df = Inr dates \<and> series (Name ''Close'') df = Inr closes
           \<and> series (Name ''ds'') fc = Inr ds \<and> series (Name ''yhat'') fc = Inr yhat
           \<and> series (Name ''yhat_upper'') fc = Inr upper
           \<and> length yhat = length ds \<and> length upper = length ds
           \<and> fst (update_tab E ticker forecast_days ''tab1'') = Inr (Some (Graph fig1))
           \<and> map trace_x (traces fig1) = [dates]
           \<and> map trace_y (traces fig1) = [closes]
           \<and> map trace_mode (traces fig1) = [''lines'']
           \<and> map trace_fill (traces fig1) = [None]
           \<and> fst (update_tab E ticker forecast_days ''tab2'') = Inr (Some (Graph fig2))
           \<and> map trace_x (traces fig2) = [dates, ds, ds]
           \<and> map trace_y (traces fig2) = [closes, yhat, upper]
           \<and> map trace_mode (traces fig2) = [''lines'', ''lines'', ''lines'']
           \<and> map trace_name (traces fig2) = [''Actual'', ''Forecast'', ''Confidence Interval'']
           \<and> map trace_fill (traces fig2) = [None, None, Some ''tonexty'']"
proof -
  from get_stock_data_has_series [OF assms(1)] obtain dates closes where
    d: "series (Name ''Date'') df = Inr dates" and c: "series (Name ''Close'') df = Inr closes"
    by blast
  from forecast_stock_series [OF assms(3)] obtain ds yhat upper where
    f: "series (Name ''ds'') fc = Inr ds" "series (Name ''yhat'') fc = Inr yhat"
       "series (Name ''yhat_upper'') fc = Inr upper"
    and len: "length yhat = length ds" "length upper = length ds"
    by blast
  have u: "fst (update_tab E ticker forecast_days ''tab1'') =
          render ticker forecast_days ''tab1'' df fc"
       "fst (update_tab E ticker forecast_days ''tab2'') =
          render ticker forecast_days ''tab2'' df fc"
    by (simp_all add: update_tab_success [OF assms])
  note r1 = render_tab1 [OF d c, of ticker forecast_days fc]
  note r2 = render_tab2 [OF d c f, of ticker forecast_days]
  show ?thesis
    apply (rule exI [of _ dates], rule exI [of _ closes], rule exI [of _ ds])
    apply (rule exI [of _ yhat], rule exI [of _ upper])
    apply (simp add: d c f len u r1 r2 scatter_def)
    done
qed

lemma notna_stamps: "notna (map Stamp ts) = replicate (length ts) True"
  by (induction ts) (simp_all add: notna_def)

lemma notna_nums: "notna (map Num vs) = replicate (length vs) True"
  by (induction vs) (simp_all add: notna_def)

lemma map2_and_replicate:
  "map2 (\<and>) (replicate n True) (replicate n True) = replicate n True"
  by (induction n) simp_all

lemma select_rows_all: "length xs = n \<Longrightarrow> select_rows (replicate n True) xs = xs"
proof (induction xs arbitrary: n)
  case Nil
  then show ?case by (simp add: select_rows_def)
next
  case (Cons x xs)
  then obtain k where "n = Suc k" "length xs = k" by (cases n) auto
  with Cons.IH [of k] show ?case by (simp add: select_rows_def)
qed

lemma to_datetime_stamps: "to_datetime E (map Stamp ts) = map Stamp ts"
  by (simp add: to_datetime_def)

lemma to_numeric_nums: "to_numeric E (map Num vs) = map Num vs"
  by (simp add: to_numeric_def)

lemma stamps_map_Stamp: "stamps (map Stamp ts) = ts"
  by (induction ts) (simp_all add: stamps_Nil stamps_Cons)

lemma observations_zip:
  "observations (map Stamp ts) (map Num vs) = zip ts vs"
proof (induction ts arbitrary: vs)
  case Nil
  then show ?case by (simp add: observations_def)
next
  case (Cons t ts)
  show ?case
  proof (cases vs)
    case Nil
    then show ?thesis by (simp add: observations_def)
  next
    case (Cons v vs')
    with Cons.IH [of vs'] show ?thesis by (simp add: observations_def)
  qed
qed

lemma sort_remdups_strict: "sorted_wrt (<) (ts :: int list) \<Longrightarrow> sort (remdups ts) = ts"
proof -
  assume s: "sorted_wrt (<) ts"
  then have "distinct ts" "sorted ts" by (simp_all add: strict_sorted_iff)
  then show ?thesis by (simp add: distinct_remdups_id sorted_sort_id)
qed

lemma fold_max_sorted:
  "sorted (h # hs) \<Longrightarrow> fold max hs (h :: int) = last (h # hs)"
proof (induction hs arbitrary: h)
  case Nil
  then show ?case by simp
next
  case (Cons a hs)
  then have "max a h = a" "sorted (a # hs)" by auto
  with Cons.IH [of a] show ?case by simp
qed

lemma maximum_sorted: "sorted ts \<Longrightarrow> ts \<noteq> [] \<Longrightarrow> maximum ts = Inr (last ts)"
  by (cases ts) (simp_all add: fold_max_sorted del: sorted_wrt.simps last.simps)

lemma day_ns_pos: "0 < day_ns"
  by (simp add: day_ns_def)

lemma filter_after_last:
  "filter (\<lambda>d. l < d) (map (\<lambda>k. l + int k * day_ns) [0..<n])
     = map (\<lambda>k. l + int k * day_ns) [1..<n]"
proof (cases n)
  case 0
  then show ?thesis by simp
next
  case (Suc m)
  have a: "[0..<Suc m] = 0 # [1..<Suc m]" by (simp add: upt_rec)
  have b: "filter (\<lambda>d. l < d) (map (\<lambda>k. l + int k * day_ns) [1..<Suc m])
             = map (\<lambda>k. l + int k * day_ns) [1..<Suc m]"
    using day_ns_pos by (auto simp: filter_map o_def intro!: filter_True)
  show ?thesis unfolding Suc a using b by simp
qed

lemma make_future_dataframe_sorted:
  assumes "sorted ts" and "ts \<noteq> []" and "- 1 \<le> h"
  shows "make_future_dataframe E \<lparr>history_dates = ts, estimator = est\<rparr> h
           = Inr (ts @ future_days (last ts) h)"
proof -
  have n: "nat (h + 1) = (if h = - 1 then 0 else Suc (nat h))" using assms(3) by auto
  have r: "date_range E (last ts) (h + 1)
             = Inr (map (\<lambda>k. last ts + int k * day_ns) [0..<nat (h + 1)])"
    using assms(3) by (simp add: date_range_def)
  have p: "py_prefix h (map (\<lambda>k. last ts + int k * day_ns) [1..<nat (h + 1)])
             = future_days (last ts) h"
  proof (cases "h = - 1")
    case True
    then show ?thesis by (simp add: py_prefix_def future_days_def)
  next
    case False
    with assms(3) have "0 \<le> h" by simp
    with False show ?thesis by (simp add: py_prefix_def future_days_def n)
  qed
  show ?thesis
    by (simp add: make_future_dataframe_def maximum_sorted [OF assms(1,2)] andThen_def r
                  filter_after_last p del: One_nat_def)
qed

lemma price_series_select:
  assumes "price_series ts vs df"
  shows "select_columns [Name ''Date'', Name ''Close''] df
           = Inr (df\<lparr>cols := [(Name ''Date'', map Stamp ts), (Name ''Close'', map Num vs)]\<rparr>)"
proof -
  from assms have d: "series (Name ''Date'') df = Inr (map Stamp ts)"
    and c: "series (Name ''Close'') df = Inr (map Num vs)"
    by (simp_all add: price_series_def)
  from d c have "filter (\<lambda>(k, c). k = Name ''Date'') (cols df) = [(Name ''Date'', map Stamp ts)]"
    "filter (\<lambda>(k, c). k = Name ''Close'') (cols df) = [(Name ''Close'', map Num vs)]"
    by (simp_all add: series_Inr_iff)
  with series_in_labels [OF d] series_in_labels [OF c] show ?thesis
    by (simp add: select_columns_def)
qed

lemma forecast_stock_body_price_series:
  assumes ps: "price_series ts vs df" and h: "- 1 \<le> h"
  shows "forecast_stock_body E df h =
           (if length ts < 2 then Inl (ValueError ''Dataframe has less than 2 non-NaN rows.'')
            else andThen (prophet_estimate E (zip ts vs))
                   (\<lambda>est. predict \<lparr>history_dates = ts, estimator = est\<rparr>
                            (ts @ future_days (last ts) h)))"
proof -
  let ?M = "df\<lparr>cols := [(Name ''ds'', map Stamp ts), (Name ''y'', map Num vs)]\<rparr>"
  from ps have len: "length vs = length ts" "length (index df) = length ts"
    and srt: "sorted_wrt (<) ts"
    by (simp_all add: price_series_def)
  have ren: "rename (Name ''Close'') (Name ''y'') (rename (Name ''Date'') (Name ''ds'')
               (df\<lparr>cols := [(Name ''Date'', map Stamp ts), (Name ''Close'', map Num vs)]\<rparr>)) = ?M"
    by (simp add: rename_def)
  have mask: "row_mask [map Stamp ts, map Num vs] (length ts) = replicate (length ts) True"
    by (simp add: row_mask_def notna_stamps notna_nums len map2_and_replicate)
  have keep: "keep_rows (replicate (length ts) True) ?M = ?M"
    by (simp add: keep_rows_def select_rows_all len)
  have dall: "dropna_all ?M = ?M"
    by (simp add: dropna_all_def len mask keep)
  have sds: "series (Name ''ds'') ?M = Inr (map Stamp ts)"
    and sy: "series (Name ''y'') ?M = Inr (map Num vs)"
    by (simp_all add: series_def)
  have set1: "set_column (Name ''ds'') (map Stamp ts) ?M = ?M"
    and set2: "set_column (Name ''y'') (map Num vs) ?M = ?M"
    by (simp_all add: set_column_def labels_def)
  have dsub: "dropna_subset [Name ''ds'', Name ''y''] ?M = Inr ?M"
    by (simp add: dropna_subset_def labels_def len mask keep)
  have srt': "sorted ts" using srt by (simp add: strict_sorted_iff)
  have fit: "prophet_fit E ?M =
               (if length ts < 2 then Inl (ValueError ''Dataframe has less than 2 non-NaN rows.'')
                else andThen (prophet_estimate E (zip ts vs))
                       (\<lambda>est. Inr \<lparr>history_dates = ts, estimator = est\<rparr>))"
    by (simp add: prophet_fit_def sds sy andThen_def observations_zip len stamps_map_Stamp
                  sort_remdups_strict [OF srt])
  show ?thesis
  proof (cases "length ts < 2")
    case True
    then show ?thesis
      by (simp add: forecast_stock_body_def price_series_select [OF ps] andThen_def ren dall
                    sds sy to_datetime_stamps to_numeric_nums set1 set2 dsub fit)
  next
    case False
    then have ne: "ts \<noteq> []" by auto
    show ?thesis
      using False
      by (simp add: forecast_stock_body_def price_series_select [OF ps] andThen_def ren dall
                    sds sy to_datetime_stamps to_numeric_nums set1 set2 dsub fit
                    make_future_dataframe_sorted [OF srt' ne h] split: sum.splits)
  qed
qed

lemma future_days_props:
  "length (future_days l h) = nat h
   \<and> sorted_wrt (<) (future_days l h)
   \<and> (\<forall>t \<in> set (future_days l h). l < t)
   \<and> (\<forall>k < nat h. future_days l h ! k = l + (int k + 1) * day_ns)"
proof -
  have "sorted_wrt (\<lambda>j k. l + int j * day_ns < l + int k * day_ns) [1..<Suc (nat h)]"
    by (rule sorted_wrt_mono_rel [OF _ sorted_wrt_upt]) (use day_ns_pos in auto)
  then have inj: "sorted_wrt (<) (map (\<lambda>k. l + int k * day_ns) [1..<Suc (nat h)])"
    by (simp only: sorted_wrt_map)
  have nth: "\<forall>k < nat h. map (\<lambda>k. l + int k * day_ns) [1..<Suc (nat h)] ! k
                          = l + (int k + 1) * day_ns"
    by (simp add: algebra_simps del: One_nat_def upt_Suc)
  have gt: "\<forall>t \<in> set (map (\<lambda>k. l + int k * day_ns) [1..<Suc (nat h)]). l < t"
    using day_ns_pos by (auto simp del: One_nat_def upt_Suc)
  show ?thesis
    unfolding future_days_def using inj nth gt by (simp del: One_nat_def upt_Suc)
qed

lemma forecast_stock_price_series_dates:
  assumes "price_series ts vs df" and "- 1 \<le> h" and "forecast_stock E df h = Some fc"
  shows "2 \<le> length ts \<and> forecast_dates fc = ts @ future_days (last ts) h"
proof -
  from assms(3) have b: "forecast_stock_body E df h = Inr fc"
    by (simp add: forecast_stock_def split: sum.splits)
  with forecast_stock_body_price_series [OF assms(1,2), of E]
  have len: "2 \<le> length ts" by (auto split: if_splits)
  with b forecast_stock_body_price_series [OF assms(1,2), of E]
  obtain est where "predict \<lparr>history_dates = ts, estimator = est\<rparr>
                      (ts @ future_days (last ts) h) = Inr fc"
    by (auto simp: andThen_Inr_iff)
  from predict_Inr [OF this] len show ?thesis
    by (simp add: forecast_dates_def stamps_map_Stamp del: map_append)
qed

text \<open>
  Claim C4, amended. For a price series of \<open>N\<close> rows and a horizon \<open>h \<ge> 1\<close> on which
  \<^verbatim>\<open>forecast_stock\<close> succeeds, the forecast has \<open>N + h\<close> timestamps, the first \<open>N\<close> are
  those of the series, and the last \<open>h\<close> are the \<open>h\<close> calendar days after the last
  timestamp of the series, the \<open>k\<close>-th being \<open>k\<close> days after it: strictly increasing, all
  beyond the last historical timestamp, weekends included.
\<close>

theorem forecast_stock_calendar_days:
  assumes "price_series ts vs df" and "1 \<le> h" and "forecast_stock E df h = Some fc"
  shows "length (forecast_dates fc) = length ts + nat h
         \<and> take (length ts) (forecast_dates fc) = ts
         \<and> drop (length ts) (forecast_dates fc) = future_days (last ts) h
         \<and> sorted_wrt (<) (future_days (last ts) h)
         \<and> (\<forall>t \<in> set (future_days (last ts) h). last ts < t)
         \<and> (\<forall>k < nat h. future_days (last ts) h ! k = last ts + (int k + 1) * day_ns)"
proof -
  from assms(2) have "- 1 \<le> h" by simp
  from forecast_stock_price_series_dates [OF assms(1) this assms(3)]
  have "forecast_dates fc = ts @ future_days (last ts) h" by simp
  then show ?thesis using future_days_props [of "last ts" h] by simp
qed

text \<open>
  Claim C4, amended, on the two rows of the ticker AAPL with a horizon of 7 days.
\<close>

theorem forecast_stock_calendar_days_witness:
  "price_series [1704326400000000000, 1704412800000000000] [10, 11] aapl_clean
   \<and> forecast_stock sample_env aapl_clean 7 = Some aapl_forecast
   \<and> length (forecast_dates aapl_forecast) = 2 + 7
   \<and> take 2 (forecast_dates aapl_forecast) = [1704326400000000000, 1704412800000000000]
   \<and> drop 2 (forecast_dates aapl_forecast) = future_days 1704412800000000000 7"
proof -
  have a: "price_series [1704326400000000000, 1704412800000000000] [10, 11] aapl_clean"
    unfolding price_series_def by code_simp
  have b: "forecast_stock sample_env aapl_clean 7 = Some aapl_forecast" by code_simp
  have c: "(1::int) \<le> 7" by simp
  from forecast_stock_calendar_days [OF a c b] a b show ?thesis
    by (simp add: numeral_2_eq_2)
qed

text \<open>
  Claim C4 as stated fails: the future timestamps advance by calendar days, not by
  trading days. After Friday 5 January 2024 the first future timestamp is Saturday
  6 January 2024.
\<close>

theorem forecast_stock_weekend_counterexample:
  "price_series [1704326400000000000, 1704412800000000000] [10, 11] aapl_clean
   \<and> forecast_stock sample_env aapl_clean 7 = Some aapl_forecast
   \<and> forecast_dates aapl_forecast = [1704326400000000000, 1704412800000000000, 1704499200000000000, 1704585600000000000, 1704672000000000000, 1704758400000000000, 1704844800000000000, 1704931200000000000, 1705017600000000000]
   \<and> weekday 1704412800000000000 = 4
   \<and> weekday 1704499200000000000 = 5
   \<and> \<not> spec_trading_day 1704499200000000000"
  unfolding price_series_def by code_simp

text \<open>
  Claim C2 as stated fails: \<^verbatim>\<open>forecast_stock\<close> has no check of the horizon. With a
  horizon of 0 it returns a forecast over the two historical rows, not \<^verbatim>\<open>None\<close>.
\<close>

theorem forecast_stock_zero_horizon_counterexample:
  "forecast_stock sample_env aapl_clean 0 = Some aapl_history_forecast
   \<and> forecast_stock sample_env aapl_clean 0 \<noteq> None"
  by code_simp

text \<open>
  Claim C2, amended. \<^verbatim>\<open>forecast_stock\<close> does not reject a horizon by itself: with a
  horizon of 0, on a price series of at least two rows that the library fits, it returns
  a forecast whose timestamps are exactly those of the series, without a future row.
\<close>

theorem forecast_stock_zero_horizon:
  assumes "price_series ts vs df" and "2 \<le> length ts"
    and "prophet_estimate E (zip ts vs) = Inr est"
  shows "\<exists>fc. forecast_stock E df 0 = Some fc \<and> forecast_dates fc = ts
              \<and> \<not> empty_frame fc"
proof -
  have h: "- 1 \<le> (0::int)" by simp
  have ne: "ts \<noteq> []" using assms(2) by auto
  have f0: "future_days (last ts) 0 = []" by (simp add: future_days_def)
  have "forecast_stock_body E df 0 =
          predict \<lparr>history_dates = ts, estimator = est\<rparr> ts"
    using forecast_stock_body_price_series [OF assms(1) h, of E] assms(2,3)
    by (simp add: andThen_def f0)
  moreover obtain fc where p: "predict \<lparr>history_dates = ts, estimator = est\<rparr> ts = Inr fc"
    using ne by (simp add: predict_def)
  ultimately have "forecast_stock E df 0 = Some fc" by (simp add: forecast_stock_def)
  with predict_Inr [OF p] show ?thesis
    by (simp add: forecast_dates_def stamps_map_Stamp)
qed

text \<open>
  Claim C2, amended, on the two rows of the ticker AAPL.
\<close>

theorem forecast_stock_zero_horizon_witness:
  "price_series [1704326400000000000, 1704412800000000000] [10, 11] aapl_clean
   \<and> (\<exists>fc. forecast_stock sample_env aapl_clean 0 = Some fc
            \<and> forecast_dates fc = [1704326400000000000, 1704412800000000000])"
proof -
  have a: "price_series [1704326400000000000, 1704412800000000000] [10, 11] aapl_clean"
    unfolding price_series_def by code_simp
  have b: "2 \<le> length [1704326400000000000, 1704412800000000000 :: int]" by simp
  have c: "prophet_estimate sample_env (zip [1704326400000000000, 1704412800000000000] [10, 11])
             = Inr (\<lambda>t. (1, 0, 2))"
    by (simp add: sample_env_def)
  from forecast_stock_zero_horizon [OF a b c] a show ?thesis by blast
qed

text \<open>
  Claim C7 on the ticker AAPL with a horizon of 7 days: two rows of history, nine rows of
  forecast.
\<close>

theorem update_tab_chart_traces_witness:
  "get_stock_data sample_env ''AAPL'' = Some aapl_clean \<and> \<not> empty_frame aapl_clean
   \<and> forecast_stock sample_env aapl_clean 7 = Some aapl_forecast
   \<and> (\<exists>fig1. fst (update_tab sample_env ''AAPL'' 7 ''tab1'') = Inr (Some (Graph fig1))
         \<and> map trace_x (traces fig1)
             = [[Stamp 1704326400000000000, Stamp 1704412800000000000]]
         \<and> map trace_y (traces fig1) = [[Num 10, Num 11]])
   \<and> (\<exists>fig2. fst (update_tab sample_env ''AAPL'' 7 ''tab2'') = Inr (Some (Graph fig2))
         \<and> map trace_y (traces fig2)
             = [[Num 10, Num 11],
                [Num 1, Num 1, Num 1, Num 1, Num 1, Num 1, Num 1, Num 1, Num 1],
                [Num 2, Num 2, Num 2, Num 2, Num 2, Num 2, Num 2, Num 2, Num 2]]
         \<and> map (\<lambda>t. length (trace_x t)) (traces fig2) = [2, 9, 9]
         \<and> map trace_fill (traces fig2) = [None, None, Some ''tonexty''])"
proof -
  have a: "get_stock_data sample_env ''AAPL'' = Some aapl_clean" by code_simp
  have b: "\<not> empty_frame aapl_clean" by code_simp
  have c: "forecast_stock sample_env aapl_clean 7 = Some aapl_forecast" by code_simp
  have d: "series (Name ''Date'') aapl_clean
             = Inr [Stamp 1704326400000000000, Stamp 1704412800000000000]" by code_simp
  have e: "series (Name ''Close'') aapl_clean = Inr [Num 10, Num 11]" by code_simp
  have f: "series (Name ''yhat'') aapl_forecast
             = Inr [Num 1, Num 1, Num 1, Num 1, Num 1, Num 1, Num 1, Num 1, Num 1]" by code_simp
  have g: "series (Name ''yhat_upper'') aapl_forecast
             = Inr [Num 2, Num 2, Num 2, Num 2, Num 2, Num 2, Num 2, Num 2, Num 2]" by code_simp
  from update_tab_chart_traces [OF a b c] obtain dates closes ds yhat upper fig1 fig2 where
    s: "series (Name ''Date'') aapl_clean = Inr dates"
       "series (Name ''Close'') aapl_clean = Inr closes"
       "series (Name ''yhat'') aapl_forecast = Inr yhat"
       "series (Name ''yhat_upper'') aapl_forecast = Inr upper"
    and l: "length yhat = length ds" "length upper = length ds"
    and t1: "fst (update_tab sample_env ''AAPL'' 7 ''tab1'') = Inr (Some (Graph fig1))"
       "map trace_x (traces fig1) = [dates]" "map trace_y (traces fig1) = [closes]"
    and t2: "fst (update_tab sample_env ''AAPL'' 7 ''tab2'') = Inr (Some (Graph fig2))"
       "map trace_x (traces fig2) = [dates, ds, ds]"
       "map trace_y (traces fig2) = [closes, yhat, upper]"
       "map trace_fill (traces fig2) = [None, None, Some ''tonexty'']"
    by - (elim exE conjE, rule that, assumption+)
  from s d e f g have v: "dates = [Stamp 1704326400000000000, Stamp 1704412800000000000]"
    "closes = [Num 10, Num 11]"
    "yhat = [Num 1, Num 1, Num 1, Num 1, Num 1, Num 1, Num 1, Num 1, Num 1]"
    "upper = [Num 2, Num 2, Num 2, Num 2, Num 2, Num 2, Num 2, Num 2, Num 2]"
    by simp_all
  with l have n: "length ds = 9" by simp
  have x: "map (\<lambda>t. length (trace_x t)) (traces fig2) = map length (map trace_x (traces fig2))"
    by simp
  have y: "map (\<lambda>t. length (trace_x t)) (traces fig2) = [2, 9, 9]"
    unfolding x t2(2) using v n by simp
  have f1: "\<exists>fig1. fst (update_tab sample_env ''AAPL'' 7 ''tab1'') = Inr (Some (Graph fig1))
         \<and> map trace_x (traces fig1)
             = [[Stamp 1704326400000000000, Stamp 1704412800000000000]]
         \<and> map trace_y (traces fig1) = [[Num 10, Num 11]]"
    using t1 v(1,2) by (intro exI [of _ fig1]) simp
  have f2: "\<exists>fig2. fst (update_tab sample_env ''AAPL'' 7 ''tab2'') = Inr (Some (Graph fig2))
         \<and> map trace_y (traces fig2)
             = [[Num 10, Num 11],
                [Num 1, Num 1, Num 1, Num 1, Num 1, Num 1, Num 1, Num 1, Num 1],
                [Num 2, Num 2, Num 2, Num 2, Num 2, Num 2, Num 2, Num 2, Num 2]]
         \<and> map (\<lambda>t. length (trace_x t)) (traces fig2) = [2, 9, 9]
         \<and> map trace_fill (traces fig2) = [None, None, Some ''tonexty'']"
    using t2(1,3,4) v(2,3,4) y by (intro exI [of _ fig2]) simp
  from a b c f1 f2 show ?thesis by (intro conjI)
qed



text \<open>
  Claim C8 as stated fails: on a trigger whose fetch yields no table, \<^verbatim>\<open>update_tab\<close>
  calls \<^verbatim>\<open>get_stock_data\<close> only; the return of line 205 comes before the call of
  \<^verbatim>\<open>forecast_stock\<close>.
\<close>

theorem update_tab_skips_forecast_counterexample:
  "snd (update_tab sample_env '''' 30 ''tab1'') = [Call_get_stock_data '''']
   \<and> Call_forecast_stock aapl_clean 30 \<notin> set (snd (update_tab sample_env '''' 30 ''tab1''))"
  by code_simp

lemma update_tab_calls:
  "snd (update_tab E ticker forecast_days tab) =
     (case get_stock_data E ticker of
        None \<Rightarrow> [Call_get_stock_data ticker]
      | Some df \<Rightarrow> if empty_frame df then [Call_get_stock_data ticker]
                   else [Call_get_stock_data ticker, Call_forecast_stock df forecast_days])"
  by (simp add: update_tab_def Let_def split: option.splits)

text \<open>
  Claim C8, amended. On every trigger \<^verbatim>\<open>update_tab\<close> calls \<^verbatim>\<open>get_stock_data\<close>; on
  every trigger whose fetched table is present and not empty it then calls
  \<^verbatim>\<open>forecast_stock\<close> on that table; and the calls are the same whatever the active view
  is, so a change of the view alone fetches and forecasts again.
\<close>

theorem update_tab_stages:
  "Call_get_stock_data ticker \<in> set (snd (update_tab E ticker forecast_days tab))
   \<and> snd (update_tab E ticker forecast_days tab) = snd (update_tab E ticker forecast_days tab')
   \<and> (\<forall>df. get_stock_data E ticker = Some df \<and> \<not> empty_frame df \<longrightarrow>
         snd (update_tab E ticker forecast_days tab)
           = [Call_get_stock_data ticker, Call_forecast_stock df forecast_days])"
  by (auto simp: update_tab_calls split: option.splits)

text \<open>
  Claim C8, amended, on the ticker AAPL under both views.
\<close>

theorem update_tab_stages_witness:
  "get_stock_data sample_env ''AAPL'' = Some aapl_clean \<and> \<not> empty_frame aapl_clean
   \<and> snd (update_tab sample_env ''AAPL'' 7 ''tab1'')
       = [Call_get_stock_data ''AAPL'', Call_forecast_stock aapl_clean 7]
   \<and> snd (update_tab sample_env ''AAPL'' 7 ''tab2'')
       = [Call_get_stock_data ''AAPL'', Call_forecast_stock aapl_clean 7]"
proof -
  have a: "get_stock_data sample_env ''AAPL'' = Some aapl_clean" by code_simp
  have b: "\<not> empty_frame aapl_clean" by code_simp
  from update_tab_stages [of "''AAPL''" sample_env 7 "''tab1''" "''tab2''"] a b
  show ?thesis by metis
qed

lemma spec_forecast_boundsD:
  assumes "spec_forecast_bounds E" and "prophet_estimate E history = Inr est"
  shows "fst (snd (est t)) \<le> fst (est t) \<and> fst (est t) \<le> snd (snd (est t))"
proof -
  from assms have "case est t of (point, lower, upper) \<Rightarrow> lower \<le> point \<and> point \<le> upper"
    by (simp add: spec_forecast_bounds_def)
  then show ?thesis by (simp add: case_prod_beta)
qed

lemma prophet_fit_Inr:
  assumes "prophet_fit E model_df = Inr m"
  shows "\<exists>history. prophet_estimate E history = Inr (estimator m)"
proof -
  from assms obtain ds ys est where
    "prophet_estimate E (observations ds ys) = Inr est" and "estimator m = est"
    by (auto simp: prophet_fit_def andThen_Inr_iff Let_def split: if_splits)
  then show ?thesis by blast
qed

text \<open>
  Claim C9. \<^verbatim>\<open>forecast_stock\<close> returns the table of the library as it is: every row
  holds the lower bound, the point estimate and the upper bound the library gives for the
  timestamp of the row, none is dropped, moved or exchanged. So when the estimates of the
  library are ordered, as the specification says of the forecasting capability, the lower
  bound of every row of every forecast is at most the point estimate and the point
  estimate at most the upper bound.
\<close>

theorem forecast_stock_bounds_ordered:
  assumes "spec_forecast_bounds E" and "forecast_stock E df periods = Some fc"
  shows "\<exists>dates lower point upper.
           series (Name ''ds'') fc = Inr dates
           \<and> series (Name ''yhat_lower'') fc = Inr (map Num lower)
           \<and> series (Name ''yhat'') fc = Inr (map Num point)
           \<and> series (Name ''yhat_upper'') fc = Inr (map Num upper)
           \<and> point \<noteq> [] \<and> length dates = length point
           \<and> length lower = length point \<and> length upper = length point
           \<and> (\<forall>i < length point. lower ! i \<le> point ! i \<and> point ! i \<le> upper ! i)"
proof -
  from forecast_stock_SomeD [OF assms(2)] obtain model_df m future where
    fit: "prophet_fit E model_df = Inr m" and p: "predict m future = Inr fc"
    by blast
  from prophet_fit_Inr [OF fit] obtain history where
    "prophet_estimate E history = Inr (estimator m)" by blast
  from spec_forecast_boundsD [OF assms(1) this]
  have ord: "\<And>t. fst (snd (estimator m t)) \<le> fst (estimator m t)
                    \<and> fst (estimator m t) \<le> snd (snd (estimator m t))" .
  let ?lower = "map (\<lambda>t. fst (snd (estimator m t))) future"
  let ?point = "map (\<lambda>t. fst (estimator m t)) future"
  let ?upper = "map (\<lambda>t. snd (snd (estimator m t))) future"
  from predict_Inr [OF p] have
    "series (Name ''ds'') fc = Inr (map Stamp future)"
    "length (map Stamp future) = length ?point"
    "series (Name ''yhat_lower'') fc = Inr (map Num ?lower)"
    "series (Name ''yhat'') fc = Inr (map Num ?point)"
    "series (Name ''yhat_upper'') fc = Inr (map Num ?upper)"
    "?point \<noteq> []"
    by (simp_all add: comp_def)
  moreover have "length ?lower = length ?point" "length ?upper = length ?point" by simp_all
  moreover have "\<forall>i < length ?point. ?lower ! i \<le> ?point ! i \<and> ?point ! i \<le> ?upper ! i"
    using ord by simp
  ultimately show ?thesis by blast
qed

text \<open>Claim C9 on the ticker AAPL with a horizon of 7 days.\<close>

theorem forecast_stock_bounds_ordered_witness:
  "spec_forecast_bounds sample_env
   \<and> forecast_stock sample_env aapl_clean 7 = Some aapl_forecast
   \<and> (\<exists>dates lower point upper.
         series (Name ''ds'') aapl_forecast = Inr dates
         \<and> series (Name ''yhat_lower'') aapl_forecast = Inr (map Num lower)
         \<and> series (Name ''yhat'') aapl_forecast = Inr (map Num point)
         \<and> series (Name ''yhat_upper'') aapl_forecast = Inr (map Num upper)
         \<and> point \<noteq> [] \<and> length dates = length point
         \<and> length lower = length point \<and> length upper = length point
         \<and> (\<forall>i < length point. lower ! i \<le> point ! i \<and> point ! i \<le> upper ! i))"
proof -
  have a: "spec_forecast_bounds sample_env"
    by (simp add: spec_forecast_bounds_def sample_env_def)
  have b: "forecast_stock sample_env aapl_clean 7 = Some aapl_forecast" by code_simp
  from forecast_stock_bounds_ordered [OF a b] a b show ?thesis by blast
qed

end
